theory Spec2Isabelle
  imports Complex_Main "HOL-Library.Word"
begin

section \<open>Doubles with their special values\<close>

text \<open>
  The matcher computes in C++ \<^verbatim>\<open>double\<close>. Several of its branches depend on what a
  division by zero yields (an infinity, or a NaN that fails every ordered comparison), so
  a double is a finite real or one of the three special values. Finite arithmetic is
  exact here: rounding, overflow, underflow and the sign of a zero are not part of the
  model, and a value stated below is the exact one, which the code delivers up to the
  rounding of its operations. Where a branch of the code turns on that rounding (a line
  that grazes the box of a hit), or a statement would compare two differently computed
  distances digit for digit, nothing is stated.
\<close>

datatype double = Fin real | PInf | MInf | NaN

fun inf_signed :: "real \<Rightarrow> double" where
  "inf_signed s = (if s = 0 then NaN else if 0 < s then PInf else MInf)"

instantiation double :: "{plus, uminus, minus, times, inverse, ord}"
begin

fun plus_double :: "double \<Rightarrow> double \<Rightarrow> double" where
  "plus_double (Fin a) (Fin b) = Fin (a + b)"
| "plus_double (Fin a) PInf = PInf"
| "plus_double (Fin a) MInf = MInf"
| "plus_double PInf (Fin b) = PInf"
| "plus_double PInf PInf = PInf"
| "plus_double MInf (Fin b) = MInf"
| "plus_double MInf MInf = MInf"
| "plus_double PInf MInf = NaN"
| "plus_double MInf PInf = NaN"
| "plus_double NaN b = NaN"
| "plus_double a NaN = NaN"

fun uminus_double :: "double \<Rightarrow> double" where
  "uminus_double (Fin a) = Fin (- a)"
| "uminus_double PInf = MInf"
| "uminus_double MInf = PInf"
| "uminus_double NaN = NaN"

definition minus_double :: "double \<Rightarrow> double \<Rightarrow> double" where
  "minus_double a b = a + (- b)"

fun times_double :: "double \<Rightarrow> double \<Rightarrow> double" where
  "times_double (Fin a) (Fin b) = Fin (a * b)"
| "times_double (Fin a) PInf = inf_signed a"
| "times_double (Fin a) MInf = inf_signed (- a)"
| "times_double PInf (Fin b) = inf_signed b"
| "times_double MInf (Fin b) = inf_signed (- b)"
| "times_double PInf PInf = PInf"
| "times_double MInf MInf = PInf"
| "times_double PInf MInf = MInf"
| "times_double MInf PInf = MInf"
| "times_double NaN b = NaN"
| "times_double a NaN = NaN"

fun divide_double :: "double \<Rightarrow> double \<Rightarrow> double" where
  "divide_double (Fin a) (Fin b) = (if b = 0 then inf_signed a else Fin (a / b))"
| "divide_double (Fin a) PInf = Fin 0"
| "divide_double (Fin a) MInf = Fin 0"
| "divide_double PInf (Fin b) = (if 0 \<le> b then PInf else MInf)"
| "divide_double MInf (Fin b) = (if 0 \<le> b then MInf else PInf)"
| "divide_double PInf PInf = NaN"
| "divide_double PInf MInf = NaN"
| "divide_double MInf PInf = NaN"
| "divide_double MInf MInf = NaN"
| "divide_double NaN b = NaN"
| "divide_double a NaN = NaN"

definition inverse_double :: "double \<Rightarrow> double" where
  "inverse_double a = divide (Fin 1) a"

fun less_double :: "double \<Rightarrow> double \<Rightarrow> bool" where
  "less_double (Fin a) (Fin b) = (a < b)"
| "less_double (Fin a) PInf = True"
| "less_double MInf (Fin b) = True"
| "less_double MInf PInf = True"
| "less_double a b = False"

fun less_eq_double :: "double \<Rightarrow> double \<Rightarrow> bool" where
  "less_eq_double (Fin a) (Fin b) = (a \<le> b)"
| "less_eq_double (Fin a) PInf = True"
| "less_eq_double MInf (Fin b) = True"
| "less_eq_double MInf PInf = True"
| "less_eq_double PInf PInf = True"
| "less_eq_double MInf MInf = True"
| "less_eq_double a b = False"

instance ..

end

text \<open>\<^verbatim>\<open>a == b\<close> and \<^verbatim>\<open>a != b\<close> on doubles: a NaN equals nothing, itself included.\<close>

definition feq :: "double \<Rightarrow> double \<Rightarrow> bool" where
  "feq a b = (a \<noteq> NaN \<and> b \<noteq> NaN \<and> a = b)"

definition fne :: "double \<Rightarrow> double \<Rightarrow> bool" where
  "fne a b = (\<not> feq a b)"

text \<open>\<^verbatim>\<open>std::min(a, b)\<close> is \<^verbatim>\<open>(b < a) ? b : a\<close> and \<^verbatim>\<open>std::max(a, b)\<close> is \<^verbatim>\<open>(a < b) ? b : a\<close>.\<close>

definition std_min :: "double \<Rightarrow> double \<Rightarrow> double" where
  "std_min a b = (if b < a then b else a)"

definition std_max :: "double \<Rightarrow> double \<Rightarrow> double" where
  "std_max a b = (if a < b then b else a)"

fun dsqrt :: "double \<Rightarrow> double" where
  "dsqrt (Fin a) = (if a < 0 then NaN else Fin (sqrt a))"
| "dsqrt PInf = PInf"
| "dsqrt MInf = NaN"
| "dsqrt NaN = NaN"

fun dabs :: "double \<Rightarrow> double" where
  "dabs (Fin a) = Fin \<bar>a\<bar>"
| "dabs PInf = PInf"
| "dabs MInf = PInf"
| "dabs NaN = NaN"

text \<open>
  The conversion of a double to a \<^verbatim>\<open>float\<close> (binary32, rounding to nearest) and back,
  as far as its range goes: a magnitude of at most \<open>2^-150\<close>, half the smallest positive
  \<^verbatim>\<open>float\<close>, becomes zero, and one from \<open>2^128 - 2^103\<close>, half a step above the largest
  \<^verbatim>\<open>float\<close>, becomes infinite. The rounding of the significand to 24 bits in between is
  not modelled.
\<close>

fun to_float :: "double \<Rightarrow> double" where
  "to_float (Fin a) = (if \<bar>a\<bar> \<le> 1 / 2 ^ 150 then Fin 0
                       else if 2 ^ 128 - 2 ^ 103 \<le> \<bar>a\<bar> then inf_signed a
                       else Fin a)"
| "to_float PInf = PInf"
| "to_float MInf = MInf"
| "to_float NaN = NaN"

section \<open>The drift window: \<^verbatim>\<open>CRTT0MatchAlg::TrackT0Range\<close>\<close>

text \<open>
  \<^verbatim>\<open>detProp.DriftVelocity()\<close> is the parameter \<open>DriftVelocity\<close>; the endpoint
  coordinates and the volume limits are finite doubles.
\<close>

definition TrackT0Range ::
  "real \<Rightarrow> real \<Rightarrow> real \<Rightarrow> int \<Rightarrow> real \<times> real \<Rightarrow> double \<times> double" where
  "TrackT0Range DriftVelocity startX endX driftDirection xLimits =
     (if driftDirection = 0 then (Fin 0, Fin 0)
      else
        let Vd = Fin (of_int driftDirection) * Fin DriftVelocity;
            maxX = std_max (Fin startX) (Fin endX);
            maxLimit = std_max (Fin (fst xLimits)) (Fin (snd xLimits));
            maxShift = maxLimit - maxX;
            minX = std_min (Fin startX) (Fin endX);
            minLimit = std_min (Fin (fst xLimits)) (Fin (snd xLimits));
            minShift = minLimit - minX;
            t0max = maxShift / Vd;
            t0min = minShift / Vd
        in (std_min t0min t0max, std_max t0min t0max))"

section \<open>Vectors: the operations of ROOT's \<^verbatim>\<open>TVector3\<close> that the matcher calls\<close>

datatype TVector3 = TVector3 (X: double) (Y: double) (Z: double)

type_synonym point = "real \<times> real \<times> real"

text \<open>A vector of finite coordinates.\<close>

fun fvec :: "point \<Rightarrow> TVector3" where
  "fvec (x, y, z) = TVector3 (Fin x) (Fin y) (Fin z)"

definition vadd :: "TVector3 \<Rightarrow> TVector3 \<Rightarrow> TVector3" where
  "vadd p q = TVector3 (X p + X q) (Y p + Y q) (Z p + Z q)"

definition vsub :: "TVector3 \<Rightarrow> TVector3 \<Rightarrow> TVector3" where
  "vsub p q = TVector3 (X p - X q) (Y p - Y q) (Z p - Z q)"

definition vscale :: "double \<Rightarrow> TVector3 \<Rightarrow> TVector3" where
  "vscale a p = TVector3 (a * X p) (a * Y p) (a * Z p)"

definition Dot :: "TVector3 \<Rightarrow> TVector3 \<Rightarrow> double" where
  "Dot p q = X p * X q + Y p * Y q + Z p * Z q"

definition Cross :: "TVector3 \<Rightarrow> TVector3 \<Rightarrow> TVector3" where
  "Cross p q = TVector3 (Y p * Z q - Y q * Z p) (Z p * X q - Z q * X p) (X p * Y q - X q * Y p)"

definition Mag2 :: "TVector3 \<Rightarrow> double" where
  "Mag2 p = X p * X p + Y p * Y p + Z p * Z p"

definition Mag :: "TVector3 \<Rightarrow> double" where
  "Mag p = dsqrt (Mag2 p)"


section \<open>Hits, candidates, tracks and the configuration\<close>

text \<open>
  Modelled from the spec: the declaration of \<^verbatim>\<open>sbn::crt::CRTHit\<close> is not part of the
  repository. A hit is a position with per-axis uncertainty, a photoelectron yield and two
  time references; the fields are those the matcher reads, all finite. The two time
  references are taken as floating-point fields, as the casts at the places of use
  suggest (\<^verbatim>\<open>(uint64_t)crtHit.ts0_ns\<close>, \<^verbatim>\<open>(double)(int)crtHit.ts1_ns\<close>).
\<close>

record CRTHit =
  peshit :: real
  ts0_ns :: real
  ts1_ns :: real
  x_pos :: real
  x_err :: real
  y_pos :: real
  y_err :: real
  z_pos :: real
  z_err :: real

text \<open>
  Modelled from the spec: \<^verbatim>\<open>matchCand\<close> is declared in the header, which is not part of
  the repository: the hit, its corrected time, the distance of closest approach and the
  extrapolation length.
\<close>

record matchCand =
  thishit :: CRTHit
  t0 :: double
  dca :: double
  extrapLen :: double

text \<open>
  \<^verbatim>\<open>makeNULLmc\<close>. The hit of the null candidate is a default-constructed
  \<^verbatim>\<open>CRTHit\<close>, written here with all fields zero.
\<close>

definition default_CRTHit :: CRTHit where
  "default_CRTHit = \<lparr>peshit = 0, ts0_ns = 0, ts1_ns = 0, x_pos = 0, x_err = 0,
                      y_pos = 0, y_err = 0, z_pos = 0, z_err = 0\<rparr>"

definition makeNULLmc :: matchCand where
  "makeNULLmc = \<lparr>thishit = default_CRTHit, t0 = Fin (- 99999), dca = Fin (- 99999),
                  extrapLen = Fin (- 99999)\<rparr>"

text \<open>
  Modelled from the spec: \<^verbatim>\<open>recob::Track\<close> belongs to the framework. A track is read
  through its accessors only: the number of trajectory points, the location and direction
  at a point, whether the flags at a point compare equal to \<^verbatim>\<open>InvalidHitIndex\<close>, and the
  two end points. What the framework does when a point is asked for beyond the last one
  is not known here: the accessors are total functions of the index.
\<close>

record Track =
  NumberTrajectoryPoints :: nat
  LocationAtPoint :: "int \<Rightarrow> point"
  DirectionAtPoint :: "int \<Rightarrow> point"
  FlagsAreInvalidHitIndex :: "int \<Rightarrow> bool"
  Vertex :: point
  End :: point

text \<open>
  The configuration read by \<^verbatim>\<open>reconfigure\<close>, together with the three services the
  algorithm holds: the drift velocity of the detector properties, whether the space-charge
  service has its spatial calibration enabled, and the position offsets it gives at a
  point (the lookup of the TPC that contains the point included).
\<close>

record CRTT0MatchAlg =
  fTrackDirectionFrac :: real
  fDistanceLimit :: real
  fTSMode :: int
  fSCEposCorr :: bool
  fDirMethod :: int
  fDCAuseBox :: bool
  fDCAoverLength :: bool
  fPEcut :: real
  fMaxUncert :: real
  DriftVelocity :: real
  EnableCalSpatialSCE :: bool
  GetCalPosOffsets :: "TVector3 \<Rightarrow> TVector3"

section \<open>Distances of closest approach\<close>

text \<open>
  \<^verbatim>\<open>CRTT0MatchAlg::SimpleDCA\<close>: the infinite track line against the centre of the hit,
  as the quotient of the norm of a cross product by the norm of the direction. It and
  \<open>LineSegmentDistance\<close> below reach the distance of a point from a line along different
  operations, so that in the source their results may differ in the last digits.
\<close>

definition SimpleDCA :: "CRTHit \<Rightarrow> TVector3 \<Rightarrow> TVector3 \<Rightarrow> double" where
  "SimpleDCA hit start direction =
     (let pos = fvec (x_pos hit, y_pos hit, z_pos hit);
          end_pt = vadd start direction;
          denominator = Mag direction;
          numerator = Mag (Cross (vsub pos start) (vsub pos end_pt))
      in numerator / denominator)"

text \<open>
  \<^verbatim>\<open>CRTT0MatchAlg::LineSegmentDistance\<close>: segment 1 against the infinite line 2. The four
  values \<open>sN, sD, tN, tD\<close> are the ones the branches of the source leave behind. With
  exact products \<open>c = v.v\<close> is zero for the zero vector only; in the source it is also
  zero for a \<open>v\<close> so short that its squares underflow, and the quotient \<open>tN / tD\<close> is
  then infinite or NaN.
\<close>

definition smallNum :: double where
  "smallNum = Fin (1 / 100000)"

definition LineSegmentDistance :: "TVector3 \<Rightarrow> TVector3 \<Rightarrow> TVector3 \<Rightarrow> TVector3 \<Rightarrow> double" where
  "LineSegmentDistance start1 end1 start2 end2 =
     (let u = vsub end1 start1;
          v = vsub end2 start2;
          w = vsub start1 start2;
          a = Dot u u;
          b = Dot u v;
          c = Dot v v;
          d = Dot u w;
          e = Dot v w;
          D = a * c - b * b;
          (sN, sD, tN, tD) =
            (if D < smallNum then (Fin 0, Fin 1, e, c)
             else
               let sN = (b * e - c * d) / D;
                   tN = (a * e - b * d) / D
               in if sN < Fin 0 then (Fin 0, D, e, c)
                  else if sN > D then (D, D, e + b, c)
                  else (sN, D, tN, D));
          sc = (if dabs sN < smallNum then Fin 0 else sN / sD);
          tc = (if dabs tN < smallNum then Fin 0 else tN / tD);
          dP = vsub (vadd w (vscale sc u)) (vscale tc v)
      in Mag dP)"

text \<open>
  \<^verbatim>\<open>CRTT0MatchAlg::CubeIntersection\<close>: the slab test of the line through \<open>start\<close> and
  \<open>end\<close> against the box from \<open>bmin\<close> to \<open>bmax\<close> (\<^verbatim>\<open>min\<close>, \<^verbatim>\<open>max\<close> and \<^verbatim>\<open>end\<close> in the
  source). \<open>slab\<close> is the pair of plane parameters that the source computes three times,
  once an axis, as products with the reciprocal \<^verbatim>\<open>1./dir\<close>. In the source the reciprocal
  and the products are rounded, so that a line through the very boundary of the box may
  be taken to miss it; here they are exact.
\<close>

definition slab :: "double \<Rightarrow> double \<Rightarrow> double \<Rightarrow> double \<Rightarrow> double \<times> double" where
  "slab lo hi s invd =
     (if invd \<ge> Fin 0 then ((lo - s) * invd, (hi - s) * invd)
      else ((hi - s) * invd, (lo - s) * invd))"

definition no_crossing :: "TVector3 \<times> TVector3" where
  "no_crossing = (TVector3 (Fin (- 99999)) (Fin (- 99999)) (Fin (- 99999)),
                  TVector3 (Fin (- 99999)) (Fin (- 99999)) (Fin (- 99999)))"

definition CubeIntersection ::
  "TVector3 \<Rightarrow> TVector3 \<Rightarrow> TVector3 \<Rightarrow> TVector3 \<Rightarrow> TVector3 \<times> TVector3" where
  "CubeIntersection bmin bmax start end_pt =
     (let dir = vsub end_pt start;
          invDir = TVector3 (Fin 1 / X dir) (Fin 1 / Y dir) (Fin 1 / Z dir);
          (tmin, tmax) = slab (X bmin) (X bmax) (X start) (X invDir);
          (tymin, tymax) = slab (Y bmin) (Y bmax) (Y start) (Y invDir)
      in if tmin > tymax \<or> tymin > tmax then no_crossing
         else
           let tmin = (if tymin > tmin then tymin else tmin);
               tmax = (if tymax < tmax then tymax else tmax);
               (tzmin, tzmax) = slab (Z bmin) (Z bmax) (Z start) (Z invDir)
           in if tmin > tzmax \<or> tzmin > tmax then no_crossing
              else
                let tmin = (if tzmin > tmin then tzmin else tmin);
                    tmax = (if tzmax < tmax then tzmax else tmax)
                in (TVector3 (X start + tmin * X dir) (Y start + tmin * Y dir)
                             (Z start + tmin * Z dir),
                    TVector3 (X start + tmax * X dir) (Y start + tmax * Y dir)
                             (Z start + tmax * Z dir)))"

text \<open>\<^verbatim>\<open>CRTT0MatchAlg::DistToCrtHit\<close>: the hit as a box of its uncertainties.\<close>

definition DistToCrtHit :: "CRTHit \<Rightarrow> TVector3 \<Rightarrow> TVector3 \<Rightarrow> double" where
  "DistToCrtHit hit start end_pt =
     (let bmin = fvec (x_pos hit - x_err hit, y_pos hit - y_err hit, z_pos hit - z_err hit);
          bmax = fvec (x_pos hit + x_err hit, y_pos hit + y_err hit, z_pos hit + z_err hit)
      in if fne (X (fst (CubeIntersection bmin bmax start end_pt))) (Fin (- 99999)) then Fin 0
         else
           let vs = (fvec (x_pos hit, y_pos hit - y_err hit, z_pos hit - z_err hit),
                     fvec (x_pos hit, y_pos hit + y_err hit, z_pos hit - z_err hit),
                     fvec (x_pos hit, y_pos hit - y_err hit, z_pos hit + z_err hit),
                     fvec (x_pos hit, y_pos hit + y_err hit, z_pos hit + z_err hit));
               vs = (if y_err hit < x_err hit \<and> y_err hit < z_err hit
                     then (fvec (x_pos hit - x_err hit, y_pos hit, z_pos hit - z_err hit),
                           fvec (x_pos hit + x_err hit, y_pos hit, z_pos hit - z_err hit),
                           fvec (x_pos hit - x_err hit, y_pos hit, z_pos hit + z_err hit),
                           fvec (x_pos hit + x_err hit, y_pos hit, z_pos hit + z_err hit))
                     else vs);
               (vertex1, vertex2, vertex3, vertex4) =
                    (if z_err hit < x_err hit \<and> z_err hit < y_err hit
                     then (fvec (x_pos hit - x_err hit, y_pos hit - y_err hit, z_pos hit),
                           fvec (x_pos hit + x_err hit, y_pos hit - y_err hit, z_pos hit),
                           fvec (x_pos hit - x_err hit, y_pos hit + y_err hit, z_pos hit),
                           fvec (x_pos hit + x_err hit, y_pos hit + y_err hit, z_pos hit))
                     else vs);
               dist1 = LineSegmentDistance vertex1 vertex2 start end_pt;
               dist2 = LineSegmentDistance vertex1 vertex3 start end_pt;
               dist3 = LineSegmentDistance vertex4 vertex2 start end_pt;
               dist4 = LineSegmentDistance vertex4 vertex3 start end_pt
           in std_min (std_min dist1 dist2) (std_min dist3 dist4))"

text \<open>
  The space-charge correction as the source applies it at each of its places: when the
  service is enabled and \<open>fSCEposCorr\<close> is set, the offsets at the point are added to it.
\<close>

definition sce_corrected :: "CRTT0MatchAlg \<Rightarrow> TVector3 \<Rightarrow> TVector3" where
  "sce_corrected alg p =
     (if EnableCalSpatialSCE alg \<and> fSCEposCorr alg then vadd p (GetCalPosOffsets alg p) else p)"

definition xshifted :: "CRTT0MatchAlg \<Rightarrow> int \<Rightarrow> double \<Rightarrow> TVector3 \<Rightarrow> TVector3" where
  "xshifted alg driftDirection t p =
     (let xshift = Fin (of_int driftDirection) * t * Fin (DriftVelocity alg)
      in TVector3 (X p + xshift) (Y p) (Z p))"

text \<open>\<^verbatim>\<open>CRTT0MatchAlg::DistOfClosestApproach\<close>.\<close>

definition DistOfClosestApproach ::
  "CRTT0MatchAlg \<Rightarrow> TVector3 \<Rightarrow> TVector3 \<Rightarrow> CRTHit \<Rightarrow> int \<Rightarrow> double \<Rightarrow> double" where
  "DistOfClosestApproach alg trackPos trackDir crtHit driftDirection t =
     (let trackPos = sce_corrected alg (xshifted alg driftDirection t trackPos);
          end_pt = vadd trackPos trackDir
      in if fDCAuseBox alg then DistToCrtHit crtHit trackPos end_pt
         else SimpleDCA crtHit trackPos trackDir)"

section \<open>Track directions\<close>

text \<open>
  \<^verbatim>\<open>std::vector::at\<close> throws \<^verbatim>\<open>std::out_of_range\<close> for an index outside the vector.
  The index is a \<^verbatim>\<open>size_t\<close>: a negative \<^verbatim>\<open>int\<close> wraps to a value far beyond any size.
\<close>

datatype exn = out_of_range

definition vector_at :: "'a list \<Rightarrow> int \<Rightarrow> exn + 'a" where
  "vector_at v i = (if 0 \<le> i \<and> i < int (length v) then Inr (v ! nat i) else Inl out_of_range)"

text \<open>The points whose flags compare equal to \<^verbatim>\<open>InvalidHitIndex\<close> are the ones kept.\<close>

definition validDirections :: "Track \<Rightarrow> TVector3 list" where
  "validDirections track =
     map (\<lambda>i. fvec (DirectionAtPoint track (int i)))
         (filter (\<lambda>i. FlagsAreInvalidHitIndex track (int i))
                 [0 ..< NumberTrajectoryPoints track])"


text \<open>The summing loop of \<^verbatim>\<open>TrackDirectionAverage\<close>, over \<open>i = 0, ..., endPoint - 1\<close>.\<close>

fun sum_directions ::
  "TVector3 list \<Rightarrow> nat list \<Rightarrow> TVector3 \<times> TVector3 \<Rightarrow> exn + TVector3 \<times> TVector3" where
  "sum_directions vd [] tot = Inr tot"
| "sum_directions vd (i # rest) tot =
     (case vector_at vd (int i) of
        Inl e \<Rightarrow> Inl e
      | Inr dirStart \<Rightarrow>
          (case vector_at vd (int (length vd) - (int i + 1)) of
             Inl e \<Rightarrow> Inl e
           | Inr dirEnd \<Rightarrow> sum_directions vd rest (vadd (fst tot) dirStart, vadd (snd tot) dirEnd)))"

definition TrackDirectionAverage :: "Track \<Rightarrow> real \<Rightarrow> exn + TVector3 \<times> TVector3" where
  "TrackDirectionAverage track trackFrac =
     (let vd = validDirections track;
          nValidPoints = length vd;
          endPoint = \<lfloor>real nValidPoints * trackFrac\<rfloor>
      in case sum_directions vd [0 ..< nat endPoint] (fvec (0, 0, 0), fvec (0, 0, 0)) of
           Inl e \<Rightarrow> Inl e
         | Inr (totStart, totEnd) \<Rightarrow>
             Inr (TVector3 (- X totStart / Fin (of_int endPoint))
                           (- Y totStart / Fin (of_int endPoint))
                           (- Z totStart / Fin (of_int endPoint)),
                  TVector3 (X totEnd / Fin (of_int endPoint))
                           (Y totEnd / Fin (of_int endPoint))
                           (Z totEnd / Fin (of_int endPoint))))"

text \<open>
  \<^verbatim>\<open>CRTT0MatchAlg::TrackDirection\<close>: from each end of the track to the point at the
  fraction \<open>trackFrac\<close> of its points (\<^verbatim>\<open>frac\<close> in the source), normalised when the norm
  is positive. The source keeps the norm in a \<^verbatim>\<open>float\<close>
  (\<^verbatim>\<open>float norm = startDir.Mag(); if (norm>0) startDir *=(1.0/norm);\<close>): a norm below the
  range of \<^verbatim>\<open>float\<close> is zero there and the vector is left as it is, one above it is
  infinite and the vector is scaled by zero.
\<close>

definition normalised :: "TVector3 \<Rightarrow> TVector3" where
  "normalised dir = (let norm = to_float (Mag dir)
                     in if norm > Fin 0 then vscale (Fin 1 / norm) dir else dir)"

definition TrackDirection ::
  "CRTT0MatchAlg \<Rightarrow> Track \<Rightarrow> real \<Rightarrow> double \<Rightarrow> int \<Rightarrow> TVector3 \<times> TVector3" where
  "TrackDirection alg track trackFrac CRTtime driftDirection =
     (let nTrackPoints = NumberTrajectoryPoints track;
          midPt = \<lfloor>real nTrackPoints * trackFrac\<rfloor>;
          startP = fvec (Vertex track);
          endP = fvec (End track);
          midP = fvec (LocationAtPoint track midPt);
          startPoint = sce_corrected alg (xshifted alg driftDirection CRTtime startP);
          endPoint = sce_corrected alg (xshifted alg driftDirection CRTtime endP);
          midPoint = sce_corrected alg (xshifted alg driftDirection CRTtime midP);
          startDir = normalised (vsub midPoint startPoint);
          endDir = normalised (vsub midPoint endPoint)
      in (startDir, endDir))"


section \<open>Candidate generation and selection: \<^verbatim>\<open>CRTT0MatchAlg::GetClosestCRTHit\<close>\<close>

text \<open>
  The corrected time of a hit, in microseconds. \<^verbatim>\<open>(int)\<close> truncates towards zero; the
  result is a 32-bit \<^verbatim>\<open>int\<close>. For a value whose integer part is outside the range of
  \<^verbatim>\<open>int\<close> the language leaves the conversion undefined; the value here is the one the
  conversion instruction of x86-64 delivers, \<open>-2^31\<close>. \<^verbatim>\<open>trigger_timestamp\<close> is a
  \<^verbatim>\<open>uint64_t\<close>.
\<close>

definition int_cast :: "real \<Rightarrow> int" where
  "int_cast x = (let t = (if 0 \<le> x then \<lfloor>x\<rfloor> else \<lceil>x\<rceil>)
                 in if - 2147483648 \<le> t \<and> t \<le> 2147483647 then t else - 2147483648)"

definition crtTime_of :: "int \<Rightarrow> 64 word \<Rightarrow> CRTHit \<Rightarrow> double" where
  "crtTime_of TSMode trigger_timestamp crtHit =
     (if TSMode = 1 then Fin (of_int (int_cast (ts1_ns crtHit))) * Fin (1 / 1000)
      else
        let crtTime = (Fin (ts0_ns crtHit)
                         - Fin (real (unat (trigger_timestamp mod 1000000000)))) / Fin 1000
        in if crtTime < Fin (- 500000) then crtTime + Fin 1000000
           else if crtTime > Fin 500000 then crtTime - Fin 1000000
           else crtTime)"

text \<open>The test that lets a hit time into the quality cuts.\<close>

definition in_t0_window :: "double \<times> double \<Rightarrow> double \<Rightarrow> bool" where
  "in_t0_window t0MinMax crtTime =
     ((crtTime \<ge> fst t0MinMax - Fin 10 \<and> crtTime \<le> snd t0MinMax + Fin 10)
      \<or> feq (fst t0MinMax) (snd t0MinMax))"

text \<open>
  One turn of the loop over the hits: \<open>Inr None\<close> where the source says \<^verbatim>\<open>continue\<close> or
  adds nothing, \<open>Inr (Some c)\<close> where it pushes the candidate \<open>c\<close>. \<open>hit_after_window\<close>
  is the part of the loop body below the test of the time window.
\<close>

definition hit_after_window ::
  "CRTT0MatchAlg \<Rightarrow> Track \<Rightarrow> int \<Rightarrow> double \<Rightarrow> CRTHit \<Rightarrow> exn + matchCand option" where
  "hit_after_window alg tpcTrack driftDirection crtTime crtHit =
     (let start = fvec (Vertex tpcTrack);
          end_pt = fvec (End tpcTrack)
      in if peshit crtHit < fPEcut alg then Inr None
         else if x_err crtHit > fMaxUncert alg then Inr None
         else if y_err crtHit > fMaxUncert alg then Inr None
         else if z_err crtHit > fMaxUncert alg then Inr None
         else
           let crtPoint = fvec (x_pos crtHit, y_pos crtHit, z_pos crtHit)
           in case (if fDirMethod alg = 2
                    then TrackDirectionAverage tpcTrack (fTrackDirectionFrac alg)
                    else Inr (TrackDirection alg tpcTrack (fTrackDirectionFrac alg)
                                crtTime driftDirection)) of
                Inl e \<Rightarrow> Inl e
              | Inr (startDir, endDir) \<Rightarrow>
                  let startDist = DistOfClosestApproach alg start startDir crtHit
                                    driftDirection crtTime;
                      endDist = DistOfClosestApproach alg end_pt endDir crtHit
                                    driftDirection crtTime;
                      thisstart = sce_corrected alg (xshifted alg driftDirection crtTime start);
                      thisend = sce_corrected alg (xshifted alg driftDirection crtTime end_pt)
                  in if startDist < Fin (fDistanceLimit alg) \<or> endDist < Fin (fDistanceLimit alg)
                     then
                       let distS = Mag (vsub crtPoint thisstart);
                           distE = Mag (vsub crtPoint thisend)
                       in if distS < distE
                          then Inr (Some \<lparr>thishit = crtHit, t0 = crtTime, dca = startDist,
                                           extrapLen = distS\<rparr>)
                          else Inr (Some \<lparr>thishit = crtHit, t0 = crtTime, dca = endDist,
                                           extrapLen = distE\<rparr>)
                     else Inr None)"

definition hit_candidate ::
  "CRTT0MatchAlg \<Rightarrow> Track \<Rightarrow> double \<times> double \<Rightarrow> int \<Rightarrow> 64 word \<Rightarrow> CRTHit
     \<Rightarrow> exn + matchCand option" where
  "hit_candidate alg tpcTrack t0MinMax driftDirection trigger_timestamp crtHit =
     (let crtTime = crtTime_of (fTSMode alg) trigger_timestamp crtHit
      in if \<not> in_t0_window t0MinMax crtTime then Inr None
         else hit_after_window alg tpcTrack driftDirection crtTime crtHit)"

fun t0Candidates ::
  "CRTT0MatchAlg \<Rightarrow> Track \<Rightarrow> double \<times> double \<Rightarrow> int \<Rightarrow> 64 word \<Rightarrow> CRTHit list
     \<Rightarrow> exn + matchCand list" where
  "t0Candidates alg tpcTrack t0MinMax driftDirection trigger_timestamp [] = Inr []"
| "t0Candidates alg tpcTrack t0MinMax driftDirection trigger_timestamp (crtHit # crtHits) =
     (case hit_candidate alg tpcTrack t0MinMax driftDirection trigger_timestamp crtHit of
        Inl e \<Rightarrow> Inl e
      | Inr c \<Rightarrow>
          (case t0Candidates alg tpcTrack t0MinMax driftDirection trigger_timestamp crtHits of
             Inl e \<Rightarrow> Inl e
           | Inr cs \<Rightarrow> Inr (case c of None \<Rightarrow> cs | Some newmc \<Rightarrow> newmc # cs)))"

text \<open>
  The two selection loops. In the loop by \<open>dca/extrapLen\<close> the reference \<open>sin_angle\<close> is
  the ratio of the first candidate, computed once before the loop.
\<close>

fun best_by_sin_angle :: "double \<Rightarrow> matchCand \<Rightarrow> matchCand list \<Rightarrow> matchCand" where
  "best_by_sin_angle sin_angle bestmatch [] = bestmatch"
| "best_by_sin_angle sin_angle bestmatch (thisCand # rest) =
     (let this_sin_angle = dca thisCand / extrapLen thisCand
      in if dca bestmatch < Fin 0 then best_by_sin_angle sin_angle thisCand rest
         else if this_sin_angle < sin_angle \<and> dca thisCand \<ge> Fin 0
              then best_by_sin_angle sin_angle thisCand rest
         else best_by_sin_angle sin_angle bestmatch rest)"

fun best_by_dca :: "matchCand \<Rightarrow> matchCand list \<Rightarrow> matchCand" where
  "best_by_dca bestmatch [] = bestmatch"
| "best_by_dca bestmatch (thisCand # rest) =
     (if dca bestmatch < Fin 0 then best_by_dca thisCand rest
      else if dca thisCand < dca bestmatch \<and> dca thisCand \<ge> Fin 0
           then best_by_dca thisCand rest
      else best_by_dca bestmatch rest)"

definition select_bestmatch :: "bool \<Rightarrow> matchCand list \<Rightarrow> matchCand" where
  "select_bestmatch DCAoverLength cands =
     (case cands of
        [] \<Rightarrow> makeNULLmc
      | first # _ \<Rightarrow>
          let sin_angle = dca first / extrapLen first
          in if DCAoverLength then best_by_sin_angle sin_angle first cands
             else best_by_dca first cands)"

definition GetClosestCRTHit ::
  "CRTT0MatchAlg \<Rightarrow> Track \<Rightarrow> double \<times> double \<Rightarrow> CRTHit list \<Rightarrow> int \<Rightarrow> 64 word
     \<Rightarrow> exn + matchCand" where
  "GetClosestCRTHit alg tpcTrack t0MinMax crtHits driftDirection trigger_timestamp =
     (case t0Candidates alg tpcTrack t0MinMax driftDirection trigger_timestamp crtHits of
        Inl e \<Rightarrow> Inl e
      | Inr cands \<Rightarrow> Inr (select_bestmatch (fDCAoverLength alg) cands))"

text \<open>The wrapper \<^verbatim>\<open>ClosestCRTHit\<close>: the hit and the distance of the best match.\<close>

definition ClosestCRTHit ::
  "CRTT0MatchAlg \<Rightarrow> Track \<Rightarrow> double \<times> double \<Rightarrow> CRTHit list \<Rightarrow> int \<Rightarrow> 64 word
     \<Rightarrow> exn + CRTHit \<times> double" where
  "ClosestCRTHit alg tpcTrack t0MinMax crtHits driftDirection trigger_timestamp =
     (case GetClosestCRTHit alg tpcTrack t0MinMax crtHits driftDirection trigger_timestamp of
        Inl e \<Rightarrow> Inl e
      | Inr bestmatch \<Rightarrow> Inr (thishit bestmatch, dca bestmatch))"

section \<open>The front-end coincidence logic of \<^verbatim>\<open>CRTDetSim::produce\<close>\<close>

text \<open>
  Modelled from the spec: the headers of \<^verbatim>\<open>CRTChannelData\<close> and \<^verbatim>\<open>CRTData\<close> are not
  part of the repository. A channel datum carries the channel, the two tick counts and
  the charge handed to its constructor; a readout (\<^verbatim>\<open>CRTData\<close>) carries the seven
  arguments of its constructor, in their order.
\<close>

record CRTChannelData =
  Channel :: nat
  T0 :: nat
  T1 :: nat
  ADC :: nat

record CRTData =
  mac5 :: nat
  entry :: nat
  readout_ttrig :: real
  chanTrig :: nat
  trigPair :: "nat \<times> nat"
  readout_macPair :: "nat \<times> nat"
  chanData :: "CRTChannelData list"

text \<open>
  \<^verbatim>\<open>struct Tagger\<close>. The map \<^verbatim>\<open>chanlayer\<close> is read with \<^verbatim>\<open>operator[]\<close>, which gives 0
  for a channel that has no entry, so it is a total function here.
\<close>

record Tagger =
  tagger_type :: char
  reg :: string
  stackid :: nat
  layerid :: "nat set"
  chanlayer :: "nat \<Rightarrow> nat"
  macPair :: "nat \<times> nat"
  tagger_data :: "CRTChannelData list"

text \<open>
  The parameters of the module that the coincidence loop reads, and the trigger clock:
  \<open>clockTime n\<close> is \<^verbatim>\<open>trigClock.Time((double)n)\<close>, the time in microseconds of \<open>n\<close> ticks.
  The times and windows are finite doubles, added and compared only.
\<close>

record CRTDetSim =
  fApplyCoincidenceC :: bool
  fApplyCoincidenceM :: bool
  fApplyCoincidenceD :: bool
  fLayerCoincidenceWindowC :: real
  fLayerCoincidenceWindowM :: real
  fLayerCoincidenceWindowD :: real
  fDeadTime :: real
  fBiasTime :: real
  clockTime :: "nat \<Rightarrow> real"

text \<open>
  The local variables of one turn of the loop over the taggers, with the output vector
  \<^verbatim>\<open>triggeredCRTHits\<close> and the \<^verbatim>\<open>macPair\<close> of the loop's copy of the tagger. The counters
  that the module only logs are left out.
\<close>

record readout_state =
  event :: nat
  chanTrigData :: CRTChannelData
  trackNHold :: "nat set"
  layerNHold :: "nat set"
  tpair :: "nat \<times> nat"
  minosPairFound :: bool
  passingData :: "CRTChannelData list"
  ttrig :: real
  trg_macPair :: "nat \<times> nat"
  triggeredCRTHits :: "CRTData list"

text \<open>The trigger role passes to the hit \<open>chanTmpData\<close>; what was held is discarded.\<close>

definition hand_over :: "Tagger \<Rightarrow> CRTChannelData \<Rightarrow> real \<Rightarrow> readout_state \<Rightarrow> readout_state" where
  "hand_over trg chanTmpData ttmp st =
     st\<lparr>chanTrigData := chanTmpData, ttrig := ttmp,
        trackNHold := {Channel chanTmpData},
        layerNHold := {chanlayer trg (Channel chanTmpData)},
        passingData := [chanTmpData]\<rparr>"

text \<open>
  The search for a second MINOS module: the first other tagger of type \<open>m\<close>, in the
  order of the map, in the same stack and region and on the opposite layer, with a hit
  within the coincidence window of the trigger time.
\<close>

definition minos_partner ::
  "CRTDetSim \<Rightarrow> (nat \<times> Tagger) list \<Rightarrow> nat \<Rightarrow> Tagger \<Rightarrow> real \<Rightarrow> (nat \<times> Tagger) option" where
  "minos_partner sim taggers key trg t =
     find (\<lambda>(key2, trg2).
             tagger_type trg2 = CHR ''m'' \<and> key \<noteq> key2
             \<and> stackid trg = stackid trg2 \<and> reg trg = reg trg2
             \<and> ((1 \<in> layerid trg2 \<and> 0 \<in> layerid trg) \<or> (0 \<in> layerid trg2 \<and> 1 \<in> layerid trg))
             \<and> list_ex (\<lambda>d2. \<bar>clockTime sim (T0 d2) - t\<bar> < fLayerCoincidenceWindowM sim * (1 / 1000))
                        (tagger_data trg2))
          taggers"

text \<open>The body of the loop over the data of one tagger, from the second datum on.\<close>

definition readout_step ::
  "CRTDetSim \<Rightarrow> (nat \<times> Tagger) list \<Rightarrow> nat \<Rightarrow> Tagger \<Rightarrow> readout_state \<Rightarrow> CRTChannelData
     \<Rightarrow> readout_state" where
  "readout_step sim taggers key trg st chanTmpData =
     (let ttmp = clockTime sim (T0 chanTmpData)
      in if card (layerNHold st) = 1
            \<and> ((tagger_type trg = CHR ''c'' \<and> fApplyCoincidenceC sim
                   \<and> ttmp - ttrig st > fLayerCoincidenceWindowC sim * (1 / 1000))
               \<or> (tagger_type trg = CHR ''d'' \<and> fApplyCoincidenceD sim
                   \<and> ttmp - ttrig st > fLayerCoincidenceWindowD sim * (1 / 1000)))
         then hand_over trg chanTmpData ttmp st
         else
           let searching = (tagger_type trg = CHR ''m'' \<and> \<not> minosPairFound st
                              \<and> fApplyCoincidenceM sim);
               partner = (if searching then minos_partner sim taggers key trg (ttrig st)
                          else None)
           in if searching \<and> partner = None then hand_over trg chanTmpData ttmp st
              else
                let st = (case partner of
                            None \<Rightarrow> st
                          | Some (key2, trg2) \<Rightarrow>
                              st\<lparr>minosPairFound := True, trg_macPair := (key, key2)\<rparr>);
                    st = (if tagger_type trg \<noteq> CHR ''m'' then st\<lparr>trg_macPair := (key, key)\<rparr>
                          else st)
                in if (tagger_type trg = CHR ''c''
                         \<and> ttmp < ttrig st + fLayerCoincidenceWindowC sim * (1 / 1000))
                      \<or> (tagger_type trg = CHR ''d''
                         \<and> ttmp < ttrig st + fLayerCoincidenceWindowD sim * (1 / 1000))
                      \<or> (tagger_type trg = CHR ''m''
                         \<and> ttmp < ttrig st + fLayerCoincidenceWindowM sim * (1 / 1000))
                   then
                     if Channel chanTmpData \<notin> trackNHold st
                     then
                       let st = st\<lparr>trackNHold := insert (Channel chanTmpData) (trackNHold st),
                                   passingData := passingData st @ [chanTmpData]\<rparr>
                       in if chanlayer trg (Channel chanTmpData) \<notin> layerNHold st
                          then st\<lparr>layerNHold := insert (chanlayer trg (Channel chanTmpData))
                                                      (layerNHold st),
                                  tpair := (Channel (chanTrigData st), Channel chanTmpData)\<rparr>
                          else st
                     else if ttmp < ttrig st + fBiasTime sim
                     then st\<lparr>passingData :=
                               butlast (passingData st)
                               @ [(last (passingData st))
                                    \<lparr>ADC := ADC (last (passingData st)) + ADC chanTmpData\<rparr>]\<rparr>
                     else st
                   else if ttmp \<le> ttrig st + fDeadTime sim then st
                   else if ttmp > ttrig st + fDeadTime sim
                   then
                     st\<lparr>triggeredCRTHits :=
                          triggeredCRTHits st
                          @ [\<lparr>mac5 = key, entry = event st, readout_ttrig = ttrig st,
                              chanTrig = Channel (chanTrigData st), trigPair = tpair st,
                              readout_macPair = trg_macPair st, chanData = passingData st\<rparr>],
                        event := event st + 1,
                        ttrig := ttmp,
                        chanTrigData := chanTmpData,
                        passingData := [chanTmpData],
                        trackNHold := {Channel chanTmpData},
                        layerNHold := {chanlayer trg (Channel chanTmpData)},
                        minosPairFound := False\<rparr>
                   else st)"

fun readout_loop ::
  "CRTDetSim \<Rightarrow> (nat \<times> Tagger) list \<Rightarrow> nat \<Rightarrow> Tagger \<Rightarrow> readout_state \<Rightarrow> CRTChannelData list
     \<Rightarrow> readout_state" where
  "readout_loop sim taggers key trg st [] = st"
| "readout_loop sim taggers key trg st (chanTmpData # rest) =
     readout_loop sim taggers key trg (readout_step sim taggers key trg st chanTmpData) rest"

text \<open>The state before the loop: the earliest datum is the trigger.\<close>

definition first_trigger :: "CRTDetSim \<Rightarrow> Tagger \<Rightarrow> CRTChannelData \<Rightarrow> readout_state" where
  "first_trigger sim trg d0 =
     \<lparr>event = 0, chanTrigData = d0, trackNHold = {Channel d0},
      layerNHold = {chanlayer trg (Channel d0)}, tpair = (0, 0), minosPairFound = False,
      passingData = [d0], ttrig = clockTime sim (T0 d0), trg_macPair = macPair trg,
      triggeredCRTHits = []\<rparr>"

text \<open>Whether the loop runs for a tagger at all.\<close>

definition coincidence_possible :: "CRTDetSim \<Rightarrow> Tagger \<Rightarrow> bool" where
  "coincidence_possible sim trg =
     (tagger_type trg = CHR ''m''
      \<or> (tagger_type trg = CHR ''c''
          \<and> (\<not> fApplyCoincidenceC sim \<or> (fApplyCoincidenceC sim \<and> card (layerid trg) > 1)))
      \<or> (tagger_type trg = CHR ''d''
          \<and> (\<not> fApplyCoincidenceD sim \<or> (fApplyCoincidenceD sim \<and> card (layerid trg) > 1))))"

text \<open>
  One tagger. \<^verbatim>\<open>std::sort\<close> leaves the order of data with equal \<open>T0\<close> open; the stable
  \<open>sort_key\<close> fixes one such order. A tagger exists only once a datum has been pushed
  into it, so its data are not empty when the source reads \<^verbatim>\<open>data[0]\<close>. What the tagger
  adds to \<^verbatim>\<open>triggeredCRTHits\<close> is what the loop has appended when the data run out.
\<close>

definition produce_tagger :: "CRTDetSim \<Rightarrow> (nat \<times> Tagger) list \<Rightarrow> nat \<times> Tagger \<Rightarrow> CRTData list" where
  "produce_tagger sim taggers trg =
     (if coincidence_possible sim (snd trg)
      then (case sort_key T0 (tagger_data (snd trg)) of
              [] \<Rightarrow> []
            | d0 # rest \<Rightarrow>
                triggeredCRTHits
                  (readout_loop sim taggers (fst trg) (snd trg) (first_trigger sim (snd trg) d0) rest))
      else [])"

definition produce :: "CRTDetSim \<Rightarrow> (nat \<times> Tagger) list \<Rightarrow> CRTData list" where
  "produce sim taggers = concat (map (produce_tagger sim taggers) taggers)"

section \<open>The statements of the specification, and example inputs\<close>

text \<open>
  The wrap-around rule in the words of the specification: a difference below minus half a
  rollover period gains one period, one above half a period loses one.
\<close>

definition normalised_difference :: "real \<Rightarrow> real" where
  "normalised_difference naive =
     (if naive < - 500000 then naive + 1000000
      else if 500000 < naive then naive - 1000000 else naive)"

text \<open>A hit with the raw timestamp \<open>t\<close>, every other field zero.\<close>

definition hit_at :: "real \<Rightarrow> CRTHit" where
  "hit_at t = default_CRTHit\<lparr>ts0_ns := t\<rparr>"

text \<open>Finite doubles.\<close>

fun is_Fin :: "double \<Rightarrow> bool" where
  "is_Fin (Fin a) = True"
| "is_Fin PInf = False"
| "is_Fin MInf = False"
| "is_Fin NaN = False"

text \<open>
  The candidates of a hit list when no hit is rejected for its time: the loop of
  \<open>GetClosestCRTHit\<close> without the test of the time window.
\<close>

fun candidates_at_any_time ::
  "CRTT0MatchAlg \<Rightarrow> Track \<Rightarrow> int \<Rightarrow> 64 word \<Rightarrow> CRTHit list \<Rightarrow> exn + matchCand list" where
  "candidates_at_any_time alg tpcTrack driftDirection trigger_timestamp [] = Inr []"
| "candidates_at_any_time alg tpcTrack driftDirection trigger_timestamp (crtHit # crtHits) =
     (case hit_after_window alg tpcTrack driftDirection
             (crtTime_of (fTSMode alg) trigger_timestamp crtHit) crtHit of
        Inl e \<Rightarrow> Inl e
      | Inr c \<Rightarrow>
          (case candidates_at_any_time alg tpcTrack driftDirection trigger_timestamp crtHits of
             Inl e \<Rightarrow> Inl e
           | Inr cs \<Rightarrow> Inr (case c of None \<Rightarrow> cs | Some newmc \<Rightarrow> newmc # cs)))"

text \<open>A hit that one of the cuts before the direction computation rejects.\<close>

definition fails_cuts :: "CRTT0MatchAlg \<Rightarrow> double \<times> double \<Rightarrow> 64 word \<Rightarrow> CRTHit \<Rightarrow> bool" where
  "fails_cuts alg t0MinMax trigger_timestamp crtHit =
     (\<not> in_t0_window t0MinMax (crtTime_of (fTSMode alg) trigger_timestamp crtHit)
      \<or> peshit crtHit < fPEcut alg \<or> x_err crtHit > fMaxUncert alg
      \<or> y_err crtHit > fMaxUncert alg \<or> z_err crtHit > fMaxUncert alg)"

text \<open>
  Example inputs: the default configuration of \<^verbatim>\<open>reconfigure\<close> with the space-charge
  service disabled, a straight track of three points along the beam axis, a candidate
  with a given distance and extrapolation length, and a hit below the yield cut.
\<close>

definition example_alg :: CRTT0MatchAlg where
  "example_alg = \<lparr>fTrackDirectionFrac = 1 / 2, fDistanceLimit = 100, fTSMode = 2,
     fSCEposCorr = True, fDirMethod = 1, fDCAuseBox = False, fDCAoverLength = False,
     fPEcut = 0, fMaxUncert = 1000, DriftVelocity = 1 / 10, EnableCalSpatialSCE = False,
     GetCalPosOffsets = (\<lambda>p. fvec (0, 0, 0))\<rparr>"

definition example_track :: Track where
  "example_track = \<lparr>NumberTrajectoryPoints = 3,
     LocationAtPoint = (\<lambda>i. (0, 0, 50 * real_of_int i)),
     DirectionAtPoint = (\<lambda>i. (0, 0, 1)),
     FlagsAreInvalidHitIndex = (\<lambda>i. True),
     Vertex = (0, 0, 0), End = (0, 0, 100)\<rparr>"

definition cand :: "real \<Rightarrow> real \<Rightarrow> matchCand" where
  "cand d l = \<lparr>thishit = default_CRTHit, t0 = Fin 0, dca = Fin d, extrapLen = Fin l\<rparr>"

definition dim_hit :: CRTHit where
  "dim_hit = default_CRTHit\<lparr>peshit := - 1\<rparr>"

text \<open>
  For the statements about the coincidence loop: the window that applies to a tagger, in
  microseconds; whether the layer coincidence of CERN and DC modules is applied to it;
  and whether each datum of a list arrives within the dead time of the trigger that is
  current when the loop reaches it.
\<close>

definition window_of :: "CRTDetSim \<Rightarrow> Tagger \<Rightarrow> real" where
  "window_of sim trg =
     (if tagger_type trg = CHR ''c'' then fLayerCoincidenceWindowC sim * (1 / 1000)
      else if tagger_type trg = CHR ''d'' then fLayerCoincidenceWindowD sim * (1 / 1000)
      else fLayerCoincidenceWindowM sim * (1 / 1000))"

definition layer_coincidence_applied :: "CRTDetSim \<Rightarrow> Tagger \<Rightarrow> bool" where
  "layer_coincidence_applied sim trg =
     ((tagger_type trg = CHR ''c'' \<and> fApplyCoincidenceC sim)
      \<or> (tagger_type trg = CHR ''d'' \<and> fApplyCoincidenceD sim))"

fun within_dead_time ::
  "CRTDetSim \<Rightarrow> (nat \<times> Tagger) list \<Rightarrow> nat \<Rightarrow> Tagger \<Rightarrow> readout_state \<Rightarrow> CRTChannelData list
     \<Rightarrow> bool" where
  "within_dead_time sim taggers key trg st [] = True"
| "within_dead_time sim taggers key trg st (d # rest) =
     (clockTime sim (T0 d) \<le> ttrig st + fDeadTime sim
      \<and> within_dead_time sim taggers key trg (readout_step sim taggers key trg st d) rest)"

text \<open>
  Example inputs: a module with all coincidence requirements off, or with those of the
  CERN and DC modules on, the given coincidence window, a dead time of 200 and a clock of
  one microsecond a tick; a datum on a channel at a tick; a DC module of one layer and a
  CERN module of two layers with the given data.
\<close>

definition example_sim_with :: "bool \<Rightarrow> real \<Rightarrow> CRTDetSim" where
  "example_sim_with coincidence window =
     \<lparr>fApplyCoincidenceC = coincidence, fApplyCoincidenceM = False,
      fApplyCoincidenceD = coincidence,
      fLayerCoincidenceWindowC = window * 1000, fLayerCoincidenceWindowM = window * 1000,
      fLayerCoincidenceWindowD = window * 1000, fDeadTime = 200, fBiasTime = 50,
      clockTime = real\<rparr>"

definition example_sim :: "real \<Rightarrow> CRTDetSim" where
  "example_sim window = example_sim_with False window"

definition chan_hit :: "nat \<Rightarrow> nat \<Rightarrow> CRTChannelData" where
  "chan_hit ch t = \<lparr>Channel = ch, T0 = t, T1 = 0, ADC = 100\<rparr>"

definition example_tagger :: "CRTChannelData list \<Rightarrow> Tagger" where
  "example_tagger ds =
     \<lparr>tagger_type = CHR ''d'', reg = ''Bottom'', stackid = 0, layerid = {0},
      chanlayer = (\<lambda>ch. 0), macPair = (0, 0), tagger_data = ds\<rparr>"

definition example_cern_tagger :: "CRTChannelData list \<Rightarrow> Tagger" where
  "example_cern_tagger ds =
     \<lparr>tagger_type = CHR ''c'', reg = ''Top'', stackid = 0, layerid = {0, 1},
      chanlayer = (\<lambda>ch. ch mod 2), macPair = (0, 0), tagger_data = ds\<rparr>"




definition average_alg :: CRTT0MatchAlg where
  "average_alg = example_alg\<lparr>fDirMethod := 2\<rparr>"

text \<open>
  For the statements about the box of a hit: whether a point lies in the box of the
  uncertainties of a hit, the point at the parameter \<open>t\<close> of the segment from \<open>s\<close> to
  \<open>e\<close>, and a hit with a given centre and uncertainties.
\<close>

definition in_box :: "CRTHit \<Rightarrow> point \<Rightarrow> bool" where
  "in_box hit p =
     (case p of (x, y, z) \<Rightarrow>
        x_pos hit - x_err hit \<le> x \<and> x \<le> x_pos hit + x_err hit
        \<and> y_pos hit - y_err hit \<le> y \<and> y \<le> y_pos hit + y_err hit
        \<and> z_pos hit - z_err hit \<le> z \<and> z \<le> z_pos hit + z_err hit)"

definition point_on :: "point \<Rightarrow> point \<Rightarrow> real \<Rightarrow> point" where
  "point_on s e t =
     (case (s, e) of ((sx, sy, sz), (ex, ey, ez)) \<Rightarrow>
        (sx + t * (ex - sx), sy + t * (ey - sy), sz + t * (ez - sz)))"

definition box_hit :: "point \<Rightarrow> point \<Rightarrow> CRTHit" where
  "box_hit centre err =
     (case (centre, err) of ((x, y, z), (dx, dy, dz)) \<Rightarrow>
        \<lparr>peshit = 0, ts0_ns = 0, ts1_ns = 0, x_pos = x, x_err = dx,
         y_pos = y, y_err = dy, z_pos = z, z_err = dz\<rparr>)"

section \<open>Properties\<close>

lemma std_min_le_std_max_Fin:
  "std_min (Fin a) (Fin b) \<le> std_max (Fin a) (Fin b)"
  by (simp add: std_min_def std_max_def)

lemma min_le_max_real: "min a b \<le> max a (b::real)"
  by (simp add: min_le_iff_disj le_max_iff_disj)

lemma std_min_Fin: "std_min (Fin a) (Fin b) = Fin (min a b)"
  by (simp add: std_min_def min_def)

lemma std_max_Fin: "std_max (Fin a) (Fin b) = Fin (max a b)"
  by (simp add: std_max_def max_def)

text \<open>
  C3. For a drift direction of \<open>+1\<close> or \<open>-1\<close> and a drift velocity of either sign, the
  window returned by \<open>TrackT0Range\<close> is finite, its two bounds are the smaller and the
  larger of the two quotients shift/velocity (so the ordering is taken after the
  division), and the lower bound is at most the upper bound.
\<close>

theorem TrackT0Range_ordered:
  assumes "driftDirection = 1 \<or> driftDirection = - 1" and "vd \<noteq> 0"
  shows "\<exists>tMin tMax.
           TrackT0Range vd startX endX driftDirection xLimits = (Fin tMin, Fin tMax)
         \<and> tMin \<le> tMax
         \<and> tMin = min ((min (fst xLimits) (snd xLimits) - min startX endX)
                          / (of_int driftDirection * vd))
                      ((max (fst xLimits) (snd xLimits) - max startX endX)
                          / (of_int driftDirection * vd))
         \<and> tMax = max ((min (fst xLimits) (snd xLimits) - min startX endX)
                          / (of_int driftDirection * vd))
                      ((max (fst xLimits) (snd xLimits) - max startX endX)
                          / (of_int driftDirection * vd))
         \<and> fst (TrackT0Range vd startX endX driftDirection xLimits)
             \<le> snd (TrackT0Range vd startX endX driftDirection xLimits)"
  using assms min_le_max_real
  by (auto simp add: TrackT0Range_def Let_def std_min_Fin std_max_Fin minus_double_def)

theorem TrackT0Range_ordered_witness:
  "fst (TrackT0Range (- 2) 10 30 1 (0, 100)) \<le> snd (TrackT0Range (- 2) 10 30 1 (0, 100))
   \<and> TrackT0Range (- 2) 10 30 1 (0, 100) = (Fin (- 35), Fin 5)"
  using TrackT0Range_ordered [of 1 "- 2" 10 30 "(0, 100)"]
  by (simp add: TrackT0Range_def Let_def std_min_Fin std_max_Fin minus_double_def)

subsection \<open>The corrected hit time\<close>

lemma unat_mod_bound: "real (unat ((w :: 64 word) mod 1000000000)) < 1000000000"
proof -
  have "unat (w mod 1000000000) < unat (1000000000 :: 64 word)"
    by (simp add: unat_mod_distrib)
  then have "unat (w mod 1000000000) < 1000000000" by simp
  then have "real (unat (w mod 1000000000)) < real 1000000000"
    by (rule iffD2 [OF of_nat_less_iff])
  then show ?thesis by simp
qed

lemma normalised_difference_range:
  fixes a b :: real
  assumes "0 \<le> a" "a < 1000000000" "0 \<le> b" "b < 1000000000"
  shows "- 500000 \<le> normalised_difference ((a - b) / 1000)"
    and "normalised_difference ((a - b) / 1000) \<le> 500000"
  using assms by (auto simp add: normalised_difference_def field_simps)

lemma crtTime_of_normalised:
  "TSMode \<noteq> 1 \<Longrightarrow> crtTime_of TSMode trig h =
     Fin (normalised_difference ((ts0_ns h - real (unat (trig mod 1000000000))) / 1000))"
  by (simp add: crtTime_of_def Let_def minus_double_def normalised_difference_def)

text \<open>
  C5. With \<open>TSMode\<close> other than 1 the corrected time of a hit is the difference between
  its raw timestamp and the trigger timestamp modulo one second, in microseconds, moved
  by at most one period of \<open>1e6\<close>: up when it is below \<open>-0.5e6\<close>, down when it is above
  \<open>+0.5e6\<close>. A difference of \<open>+0.6e6\<close> becomes \<open>-0.4e6\<close> and one of \<open>-0.6e6\<close> becomes
  \<open>+0.4e6\<close>. For a raw timestamp within one second the corrected time lies between
  \<open>-0.5e6\<close> and \<open>+0.5e6\<close>.
\<close>

theorem crtTime_wraparound:
  assumes "TSMode \<noteq> 1"
  shows "crtTime_of TSMode trig h =
           Fin (normalised_difference ((ts0_ns h - real (unat (trig mod 1000000000))) / 1000))
     \<and> normalised_difference 600000 = - 400000
     \<and> normalised_difference (- 600000) = 400000
     \<and> (0 \<le> ts0_ns h \<and> ts0_ns h < 1000000000 \<longrightarrow>
          - 500000 \<le> normalised_difference ((ts0_ns h - real (unat (trig mod 1000000000))) / 1000)
          \<and> normalised_difference ((ts0_ns h - real (unat (trig mod 1000000000))) / 1000) \<le> 500000)"
proof (intro conjI impI)
  show "crtTime_of TSMode trig h =
           Fin (normalised_difference ((ts0_ns h - real (unat (trig mod 1000000000))) / 1000))"
    using assms by (rule crtTime_of_normalised)
  show "normalised_difference 600000 = - 400000" by (simp add: normalised_difference_def)
  show "normalised_difference (- 600000) = 400000" by (simp add: normalised_difference_def)
next
  assume h: "0 \<le> ts0_ns h \<and> ts0_ns h < 1000000000"
  then have h1: "0 \<le> ts0_ns h" and h2: "ts0_ns h < 1000000000" by simp_all
  have b: "real (unat (trig mod 1000000000)) < 1000000000" by (rule unat_mod_bound)
  have b0: "0 \<le> real (unat (trig mod 1000000000))" by (rule of_nat_0_le_iff)
  show "- 500000 \<le> normalised_difference ((ts0_ns h - real (unat (trig mod 1000000000))) / 1000)"
    by (rule normalised_difference_range(1) [OF h1 h2 b0 b])
  show "normalised_difference ((ts0_ns h - real (unat (trig mod 1000000000))) / 1000) \<le> 500000"
    by (rule normalised_difference_range(2) [OF h1 h2 b0 b])
qed

theorem crtTime_wraparound_witness:
  "crtTime_of 2 0 (hit_at 600000000) = Fin (- 400000)
   \<and> crtTime_of 2 600000000 (hit_at 0) = Fin 400000"
  using crtTime_wraparound [of 2 0 "hit_at 600000000"]
        crtTime_wraparound [of 2 600000000 "hit_at 0"]
  by (simp add: hit_at_def default_CRTHit_def)

subsection \<open>Selection of the best candidate\<close>

text \<open>
  Selection by \<open>dca\<close>: among candidates with finite distances the loop returns a member
  of the list, and when some candidate has a distance of at least zero it returns one of
  those, with the least such distance.
\<close>

lemma best_by_dca_invariant:
  assumes "\<forall>c \<in> insert b (set cs). is_Fin (dca c)"
  shows "best_by_dca b cs \<in> insert b (set cs)
       \<and> ((\<exists>c \<in> insert b (set cs). Fin 0 \<le> dca c) \<longrightarrow>
            Fin 0 \<le> dca (best_by_dca b cs)
            \<and> (\<forall>c \<in> insert b (set cs). Fin 0 \<le> dca c \<longrightarrow> dca (best_by_dca b cs) \<le> dca c))"
  using assms
proof (induction cs arbitrary: b)
  case Nil
  then show ?case by (cases "dca b") auto
next
  case (Cons c cs)
  obtain y where y: "dca b = Fin y" using Cons.prems by (cases "dca b") auto
  obtain x where x: "dca c = Fin x" using Cons.prems by (cases "dca c") auto
  have finc: "\<forall>c' \<in> insert c (set cs). is_Fin (dca c')" using Cons.prems by auto
  have finb: "\<forall>c' \<in> insert b (set cs). is_Fin (dca c')" using Cons.prems by auto
  show ?case
  proof (cases "y < 0 \<or> (x < y \<and> 0 \<le> x)")
    case True
    then have step: "best_by_dca b (c # cs) = best_by_dca c cs" using x y by auto
    have mem: "best_by_dca c cs \<in> insert c (set cs)" using Cons.IH [OF finc] by simp
    then obtain r where r: "dca (best_by_dca c cs) = Fin r"
      using finc by (cases "dca (best_by_dca c cs)") auto
    have opt: "0 \<le> r \<and> (\<forall>c' \<in> insert c (set cs). Fin 0 \<le> dca c' \<longrightarrow> Fin r \<le> dca c')"
      if "\<exists>c' \<in> insert c (set cs). Fin 0 \<le> dca c'"
    proof -
      have "Fin 0 \<le> dca (best_by_dca c cs)
          \<and> (\<forall>c' \<in> insert c (set cs). Fin 0 \<le> dca c' \<longrightarrow> dca (best_by_dca c cs) \<le> dca c')"
        using Cons.IH [OF finc] that by blast
      then show ?thesis unfolding r by simp
    qed
    show ?thesis
    proof (intro conjI impI)
      show "best_by_dca b (c # cs) \<in> insert b (set (c # cs))" unfolding step using mem by auto
    next
      assume ex: "\<exists>c' \<in> insert b (set (c # cs)). Fin 0 \<le> dca c'"
      have ex': "\<exists>c' \<in> insert c (set cs). Fin 0 \<le> dca c'"
      proof (cases "y < 0")
        case True
        then show ?thesis using ex y by auto
      next
        case False
        then have "0 \<le> x" using \<open>y < 0 \<or> (x < y \<and> 0 \<le> x)\<close> by simp
        then show ?thesis using x by auto
      qed
      from opt [OF ex'] have r0: "0 \<le> r"
        and rmin: "\<forall>c' \<in> insert c (set cs). Fin 0 \<le> dca c' \<longrightarrow> Fin r \<le> dca c'" by simp_all
      show "Fin 0 \<le> dca (best_by_dca b (c # cs))" unfolding step r using r0 by simp
      show "\<forall>c' \<in> insert b (set (c # cs)). Fin 0 \<le> dca c' \<longrightarrow> dca (best_by_dca b (c # cs)) \<le> dca c'"
      proof (intro ballI impI)
        fix c' assume c': "c' \<in> insert b (set (c # cs))" and pos: "Fin 0 \<le> dca c'"
        show "dca (best_by_dca b (c # cs)) \<le> dca c'"
        proof (cases "c' = b")
          case True
          then have "0 \<le> y" using pos y by simp
          then have "x < y \<and> 0 \<le> x" using \<open>y < 0 \<or> (x < y \<and> 0 \<le> x)\<close> by simp
          moreover have "Fin r \<le> dca c" using rmin x calculation by simp
          ultimately have "Fin r \<le> Fin y" using x by simp
          then show ?thesis unfolding step r True y .
        next
          case False
          then have "c' \<in> insert c (set cs)" using c' by auto
          then have "Fin r \<le> dca c'" using rmin pos by blast
          then show ?thesis unfolding step r .
        qed
      qed
    qed
  next
    case False
    then have y0: "0 \<le> y" and nb: "\<not> (x < y \<and> 0 \<le> x)" by simp_all
    have step: "best_by_dca b (c # cs) = best_by_dca b cs" using x y y0 nb by auto
    have mem: "best_by_dca b cs \<in> insert b (set cs)" using Cons.IH [OF finb] by simp
    then obtain r where r: "dca (best_by_dca b cs) = Fin r"
      using finb by (cases "dca (best_by_dca b cs)") auto
    have exb: "\<exists>c' \<in> insert b (set cs). Fin 0 \<le> dca c'" using y y0 by auto
    have "Fin 0 \<le> dca (best_by_dca b cs)
          \<and> (\<forall>c' \<in> insert b (set cs). Fin 0 \<le> dca c' \<longrightarrow> dca (best_by_dca b cs) \<le> dca c')"
      using Cons.IH [OF finb] exb by blast
    then have r0: "0 \<le> r"
      and rmin: "\<forall>c' \<in> insert b (set cs). Fin 0 \<le> dca c' \<longrightarrow> Fin r \<le> dca c'"
      unfolding r by simp_all
    have ry: "r \<le> y" using rmin y y0 by auto
    show ?thesis
    proof (intro conjI impI)
      show "best_by_dca b (c # cs) \<in> insert b (set (c # cs))" unfolding step using mem by auto
    next
      show "Fin 0 \<le> dca (best_by_dca b (c # cs))" unfolding step r using r0 by simp
      show "\<forall>c' \<in> insert b (set (c # cs)). Fin 0 \<le> dca c' \<longrightarrow> dca (best_by_dca b (c # cs)) \<le> dca c'"
      proof (intro ballI impI)
        fix c' assume c': "c' \<in> insert b (set (c # cs))" and pos: "Fin 0 \<le> dca c'"
        show "dca (best_by_dca b (c # cs)) \<le> dca c'"
        proof (cases "c' = c")
          case True
          then have "0 \<le> x" using pos x by simp
          then have "y \<le> x" using nb by simp
          then have "Fin r \<le> Fin x" using ry by simp
          then show ?thesis unfolding step r True x .
        next
          case False
          then have "c' \<in> insert b (set cs)" using c' by auto
          then have "Fin r \<le> dca c'" using rmin pos by blast
          then show ?thesis unfolding step r .
        qed
      qed
    qed
  qed
qed

lemma select_by_dca_minimal:
  assumes "cands \<noteq> []" and "\<forall>c \<in> set cands. is_Fin (dca c)"
  shows "select_bestmatch False cands \<in> set cands
       \<and> ((\<exists>c \<in> set cands. Fin 0 \<le> dca c) \<longrightarrow>
            Fin 0 \<le> dca (select_bestmatch False cands)
            \<and> (\<forall>c \<in> set cands. Fin 0 \<le> dca c \<longrightarrow> dca (select_bestmatch False cands) \<le> dca c))"
proof -
  obtain b cs where cands: "cands = b # cs" using assms(1) by (cases cands) auto
  have sel: "select_bestmatch False cands = best_by_dca b (b # cs)"
    by (simp add: select_bestmatch_def cands)
  have ins: "insert b (set (b # cs)) = set cands" using cands by auto
  have "\<forall>c \<in> insert b (set (b # cs)). is_Fin (dca c)" using assms(2) cands by auto
  from best_by_dca_invariant [OF this] show ?thesis unfolding sel ins .
qed

lemma select_by_dca_example: "select_bestmatch False [cand 5 10, cand 3 10] = cand 3 10"
  by (simp add: select_bestmatch_def cand_def)

lemma select_by_sin_angle_example: "select_bestmatch True [cand 3 4, cand 5 10] = cand 5 10"
  by (simp add: select_bestmatch_def cand_def)

text \<open>
  C1. Selection by \<open>dca/extrapLen\<close> is to return the candidate of least ratio. The loop
  compares every candidate with the ratio of the first one, which it never updates: of
  three candidates with ratios \<open>1/2\<close>, \<open>1/8\<close> and \<open>1/4\<close>, all with distances above zero
  and lengths above zero, it returns the last, whose ratio is not the least.
\<close>

theorem sin_angle_not_minimised:
  "select_bestmatch True [cand 4 8, cand 1 8, cand 2 8] = cand 2 8
   \<and> dca (cand 1 8) / extrapLen (cand 1 8) = Fin (1 / 8)
   \<and> dca (cand 2 8) / extrapLen (cand 2 8) = Fin (1 / 4)
   \<and> dca (cand 1 8) / extrapLen (cand 1 8) < dca (cand 2 8) / extrapLen (cand 2 8)"
  by (simp add: select_bestmatch_def cand_def)

subsection \<open>No candidate, no match\<close>

lemma vector_at_in_range:
  "0 \<le> i \<Longrightarrow> i < int (length v) \<Longrightarrow> vector_at v i = Inr (v ! nat i)"
  by (simp add: vector_at_def)

lemma sum_directions_returns:
  "\<forall>i \<in> set idx. i < length vd \<Longrightarrow> \<exists>r. sum_directions vd idx tot = Inr r"
proof (induction idx arbitrary: tot)
  case Nil
  show ?case by simp
next
  case (Cons i idx)
  then have i: "i < length vd" and rest: "\<forall>j \<in> set idx. j < length vd" by simp_all
  have a1: "vector_at vd (int i) = Inr (vd ! i)"
    using i by (simp add: vector_at_def)
  have a2: "vector_at vd (int (length vd) - (int i + 1)) = Inr (vd ! nat (int (length vd) - (int i + 1)))"
    using i by (intro vector_at_in_range) auto
  show ?case using Cons.IH [OF rest] by (simp add: a1 a2)
qed

lemma TrackDirectionAverage_returns:
  assumes "trackFrac \<le> 1 \<or> NumberTrajectoryPoints track = 0"
  shows "\<exists>r. TrackDirectionAverage track trackFrac = Inr r"
proof -
  let ?n = "length (validDirections track)"
  have "\<lfloor>real ?n * trackFrac\<rfloor> \<le> int ?n"
  proof (cases "trackFrac \<le> 1")
    case True
    then have "real ?n * trackFrac \<le> real ?n" by (simp add: mult_left_le)
    then show ?thesis by linarith
  next
    case False
    then have "?n = 0" using assms by (simp add: validDirections_def)
    then show ?thesis by simp
  qed
  then have "\<forall>i \<in> set [0 ..< nat \<lfloor>real ?n * trackFrac\<rfloor>]. i < ?n" by auto
  from sum_directions_returns [OF this]
  obtain r where "sum_directions (validDirections track) [0 ..< nat \<lfloor>real ?n * trackFrac\<rfloor>]
                    (fvec (0, 0, 0), fvec (0, 0, 0)) = Inr r" by blast
  then show ?thesis by (simp add: TrackDirectionAverage_def Let_def split: prod.splits)
qed

lemma hit_after_window_returns:
  assumes "fDirMethod alg \<noteq> 2 \<or> fTrackDirectionFrac alg \<le> 1 \<or> NumberTrajectoryPoints trk = 0"
  shows "\<exists>r. hit_after_window alg trk d t h = Inr r"
proof (cases "fDirMethod alg = 2")
  case True
  then have "fTrackDirectionFrac alg \<le> 1 \<or> NumberTrajectoryPoints trk = 0" using assms by simp
  from TrackDirectionAverage_returns [OF this]
  obtain r where "TrackDirectionAverage trk (fTrackDirectionFrac alg) = Inr r" by blast
  then show ?thesis using True
    by (simp add: hit_after_window_def Let_def split: prod.splits)
next
  case False
  then show ?thesis
    by (simp add: hit_after_window_def Let_def split: prod.splits)
qed

lemma hit_candidate_returns:
  assumes "fDirMethod alg \<noteq> 2 \<or> fTrackDirectionFrac alg \<le> 1 \<or> NumberTrajectoryPoints trk = 0"
  shows "\<exists>r. hit_candidate alg trk w d trig h = Inr r"
  using hit_after_window_returns [OF assms] by (simp add: hit_candidate_def Let_def)

lemma t0Candidates_returns:
  assumes "fDirMethod alg \<noteq> 2 \<or> fTrackDirectionFrac alg \<le> 1 \<or> NumberTrajectoryPoints trk = 0"
  shows "\<exists>cands. t0Candidates alg trk w d trig hits = Inr cands"
proof (induction hits)
  case Nil
  show ?case by simp
next
  case (Cons h hits)
  obtain c where c: "hit_candidate alg trk w d trig h = Inr c"
    using hit_candidate_returns [OF assms] by blast
  from Cons obtain cs where "t0Candidates alg trk w d trig hits = Inr cs" by blast
  then show ?case using c by simp
qed

lemma fails_cuts_no_candidate:
  "fails_cuts alg w trig h \<Longrightarrow> hit_candidate alg trk w d trig h = Inr None"
  by (auto simp add: fails_cuts_def hit_candidate_def hit_after_window_def Let_def)

lemma all_fail_no_candidates:
  "list_all (fails_cuts alg w trig) hits \<Longrightarrow> t0Candidates alg trk w d trig hits = Inr []"
  by (induction hits) (simp_all add: fails_cuts_no_candidate)

text \<open>
  C2 (as the code has it). With an empty hit list, and with any hit list that leaves no
  candidate, \<open>GetClosestCRTHit\<close> returns the null candidate of \<open>makeNULLmc\<close>, whose
  \<open>dca\<close> is \<open>-99999\<close>, and \<open>ClosestCRTHit\<close> returns its hit and that distance. When
  every hit fails the time window or a quality cut the result is the null candidate
  whatever the configuration. No exception leaves the function when \<open>fDirMethod\<close> is
  not 2 or \<open>fTrackDirectionFrac\<close> is at most 1.
\<close>

theorem no_candidate_gives_null_match:
  "GetClosestCRTHit alg trk w [] d trig = Inr makeNULLmc
   \<and> ClosestCRTHit alg trk w [] d trig = Inr (default_CRTHit, Fin (- 99999))
   \<and> dca makeNULLmc = Fin (- 99999)
   \<and> (t0Candidates alg trk w d trig hits = Inr [] \<longrightarrow>
        GetClosestCRTHit alg trk w hits d trig = Inr makeNULLmc
        \<and> ClosestCRTHit alg trk w hits d trig = Inr (default_CRTHit, Fin (- 99999)))
   \<and> (list_all (fails_cuts alg w trig) hits \<longrightarrow>
        GetClosestCRTHit alg trk w hits d trig = Inr makeNULLmc)
   \<and> (fDirMethod alg \<noteq> 2 \<or> fTrackDirectionFrac alg \<le> 1 \<longrightarrow>
        (\<exists>m. GetClosestCRTHit alg trk w hits d trig = Inr m))"
proof (intro conjI impI)
  show "GetClosestCRTHit alg trk w [] d trig = Inr makeNULLmc"
    by (simp add: GetClosestCRTHit_def select_bestmatch_def)
  show "ClosestCRTHit alg trk w [] d trig = Inr (default_CRTHit, Fin (- 99999))"
    by (simp add: ClosestCRTHit_def GetClosestCRTHit_def select_bestmatch_def makeNULLmc_def)
  show "dca makeNULLmc = Fin (- 99999)" by (simp add: makeNULLmc_def)
next
  assume "t0Candidates alg trk w d trig hits = Inr []"
  then show "GetClosestCRTHit alg trk w hits d trig = Inr makeNULLmc"
    and "ClosestCRTHit alg trk w hits d trig = Inr (default_CRTHit, Fin (- 99999))"
    by (simp_all add: ClosestCRTHit_def GetClosestCRTHit_def select_bestmatch_def makeNULLmc_def)
next
  assume "list_all (fails_cuts alg w trig) hits"
  then have "t0Candidates alg trk w d trig hits = Inr []" by (rule all_fail_no_candidates)
  then show "GetClosestCRTHit alg trk w hits d trig = Inr makeNULLmc"
    by (simp add: GetClosestCRTHit_def select_bestmatch_def)
next
  assume "fDirMethod alg \<noteq> 2 \<or> fTrackDirectionFrac alg \<le> 1"
  then have "fDirMethod alg \<noteq> 2 \<or> fTrackDirectionFrac alg \<le> 1 \<or> NumberTrajectoryPoints trk = 0"
    by blast
  from t0Candidates_returns [OF this]
  obtain cands where "t0Candidates alg trk w d trig hits = Inr cands" by blast
  then show "\<exists>m. GetClosestCRTHit alg trk w hits d trig = Inr m"
    by (simp add: GetClosestCRTHit_def)
qed

theorem no_candidate_gives_null_match_witness:
  "GetClosestCRTHit example_alg example_track (Fin 0, Fin 0) [dim_hit] 1 0 = Inr makeNULLmc
   \<and> ClosestCRTHit example_alg example_track (Fin 0, Fin 0) [dim_hit] 1 0
        = Inr (default_CRTHit, Fin (- 99999))"
proof -
  have cut: "list_all (fails_cuts example_alg (Fin 0, Fin 0) 0) [dim_hit]"
    by (simp add: fails_cuts_def dim_hit_def example_alg_def default_CRTHit_def)
  then have "t0Candidates example_alg example_track (Fin 0, Fin 0) 1 0 [dim_hit] = Inr []"
    by (rule all_fail_no_candidates)
  then show ?thesis
    using no_candidate_gives_null_match [of example_alg example_track "(Fin 0, Fin 0)" 1 0 "[dim_hit]"]
    by blast
qed

text \<open>The null candidate's \<open>dca\<close> is \<open>-99999\<close>, not \<open>-1\<close>.\<close>

theorem null_match_dca_is_not_minus_one:
  "GetClosestCRTHit example_alg example_track (Fin 0, Fin 0) [] 1 0 = Inr makeNULLmc
   \<and> dca makeNULLmc = Fin (- 99999) \<and> dca makeNULLmc \<noteq> Fin (- 1)
   \<and> \<not> feq (dca makeNULLmc) (Fin (- 1))"
  by (simp add: GetClosestCRTHit_def select_bestmatch_def makeNULLmc_def feq_def)

subsection \<open>The degenerate drift window\<close>

lemma degenerate_window_in: "feq (fst w) (snd w) \<Longrightarrow> in_t0_window w crtTime"
  by (simp add: in_t0_window_def)

lemma degenerate_window_hit:
  "feq (fst w) (snd w) \<Longrightarrow>
   hit_candidate alg trk w d trig h = hit_after_window alg trk d (crtTime_of (fTSMode alg) trig h) h"
  by (simp add: hit_candidate_def Let_def degenerate_window_in)

lemma degenerate_window_candidates:
  assumes "feq (fst w) (snd w)"
  shows "t0Candidates alg trk w d trig hits = candidates_at_any_time alg trk d trig hits"
proof (induction hits)
  case Nil
  show ?case by simp
next
  case (Cons h hits)
  show ?case
    by (simp add: degenerate_window_hit [OF assms] Cons.IH split: sum.splits)
qed

text \<open>
  C4. With drift direction 0 \<open>TrackT0Range\<close> returns the window \<open>(0, 0)\<close>, and under a
  window whose two bounds are equal the loop of \<open>GetClosestCRTHit\<close> rejects no hit for its
  time: every hit time passes the window test, every hit goes on to the quality cuts,
  and the candidates and the best match are those of the loop without the window test.
\<close>

theorem degenerate_window_accepts_every_time:
  "TrackT0Range vd startX endX 0 xLimits = (Fin 0, Fin 0)
   \<and> in_t0_window (TrackT0Range vd startX endX 0 xLimits) crtTime
   \<and> (feq (fst w) (snd w) \<longrightarrow>
        in_t0_window w crtTime
        \<and> hit_candidate alg trk w d trig h
            = hit_after_window alg trk d (crtTime_of (fTSMode alg) trig h) h
        \<and> t0Candidates alg trk w d trig hits = candidates_at_any_time alg trk d trig hits
        \<and> GetClosestCRTHit alg trk w hits d trig
            = (case candidates_at_any_time alg trk d trig hits of
                 Inl e \<Rightarrow> Inl e
               | Inr cands \<Rightarrow> Inr (select_bestmatch (fDCAoverLength alg) cands)))"
proof (intro conjI impI)
  show z: "TrackT0Range vd startX endX 0 xLimits = (Fin 0, Fin 0)"
    by (simp add: TrackT0Range_def)
  show "in_t0_window (TrackT0Range vd startX endX 0 xLimits) crtTime"
    unfolding z by (rule degenerate_window_in) (simp add: feq_def)
next
  assume w: "feq (fst w) (snd w)"
  show "in_t0_window w crtTime" using w by (rule degenerate_window_in)
  show "hit_candidate alg trk w d trig h
            = hit_after_window alg trk d (crtTime_of (fTSMode alg) trig h) h"
    using w by (rule degenerate_window_hit)
  show c: "t0Candidates alg trk w d trig hits = candidates_at_any_time alg trk d trig hits"
    using w by (rule degenerate_window_candidates)
  show "GetClosestCRTHit alg trk w hits d trig
            = (case candidates_at_any_time alg trk d trig hits of
                 Inl e \<Rightarrow> Inl e
               | Inr cands \<Rightarrow> Inr (select_bestmatch (fDCAoverLength alg) cands))"
    by (simp add: GetClosestCRTHit_def c)
qed

theorem degenerate_window_accepts_every_time_witness:
  "feq (fst (Fin 5, Fin 5)) (snd (Fin 5, Fin 5)) \<and> in_t0_window (Fin 5, Fin 5) (Fin 1000)
   \<and> \<not> in_t0_window (Fin 0, Fin 5) (Fin 1000)
   \<and> hit_candidate example_alg example_track (Fin 5, Fin 5) 1 0 (hit_at 1000000)
       = hit_after_window example_alg example_track 1 (Fin 1000) (hit_at 1000000)
   \<and> t0Candidates example_alg example_track (Fin 5, Fin 5) 1 0 [hit_at 1000000]
       = candidates_at_any_time example_alg example_track 1 0 [hit_at 1000000]"
proof -
  have f: "feq (fst (Fin 5, Fin 5)) (snd (Fin 5, Fin 5))" by (simp add: feq_def)
  have n: "\<not> in_t0_window (Fin 0, Fin 5) (Fin 1000)"
    by (simp add: in_t0_window_def feq_def minus_double_def)
  have t: "crtTime_of (fTSMode example_alg) 0 (hit_at 1000000) = Fin 1000"
    by (simp add: crtTime_of_def example_alg_def hit_at_def default_CRTHit_def minus_double_def)
  show ?thesis
    using degenerate_window_accepts_every_time [where crtTime = "Fin 1000"
          and w = "(Fin 5, Fin 5)" and alg = example_alg and trk = example_track and d = 1
          and trig = 0 and h = "hit_at 1000000" and hits = "[hit_at 1000000]"] f n
    unfolding t by blast
qed

subsection \<open>The coincidence loop of the detector simulation\<close>

lemma step_emits_only_after_dead_time:
  "triggeredCRTHits (readout_step sim taggers key trg st d) = triggeredCRTHits st
   \<or> (clockTime sim (T0 d) > ttrig st + fDeadTime sim
       \<and> (\<exists>r. triggeredCRTHits (readout_step sim taggers key trg st d) = triggeredCRTHits st @ [r]
              \<and> readout_ttrig r = ttrig st \<and> chanData r = passingData st))"
  by (auto simp add: readout_step_def hand_over_def Let_def split: option.splits prod.splits)

lemma step_ttrig:
  "ttrig (readout_step sim taggers key trg st d) = ttrig st
   \<or> ttrig (readout_step sim taggers key trg st d) = clockTime sim (T0 d)"
  by (auto simp add: readout_step_def hand_over_def Let_def split: option.splits prod.splits)

lemma loop_within_dead_time:
  "within_dead_time sim taggers key trg st ds \<Longrightarrow>
   triggeredCRTHits (readout_loop sim taggers key trg st ds) = triggeredCRTHits st"
proof (induction ds arbitrary: st)
  case Nil
  show ?case by simp
next
  case (Cons d ds)
  then have le: "clockTime sim (T0 d) \<le> ttrig st + fDeadTime sim"
    and rest: "within_dead_time sim taggers key trg (readout_step sim taggers key trg st d) ds"
    by simp_all
  have "triggeredCRTHits (readout_step sim taggers key trg st d) = triggeredCRTHits st"
    using step_emits_only_after_dead_time [of sim taggers key trg st d] le by auto
  then show ?case using Cons.IH [OF rest] by simp
qed

lemma close_times_within_dead_time:
  assumes "\<forall>a \<in> S. \<forall>b \<in> S. a \<le> b + fDeadTime sim"
    and "ttrig st \<in> S" and "\<forall>d \<in> set ds. clockTime sim (T0 d) \<in> S"
  shows "within_dead_time sim taggers key trg st ds"
  using assms(2,3)
proof (induction ds arbitrary: st)
  case Nil
  show ?case by simp
next
  case (Cons d ds)
  then have d: "clockTime sim (T0 d) \<in> S" and ds: "\<forall>d' \<in> set ds. clockTime sim (T0 d') \<in> S"
    by simp_all
  have "ttrig (readout_step sim taggers key trg st d) \<in> S"
    using step_ttrig [of sim taggers key trg st d] d Cons.prems(1) by auto
  from Cons.IH [OF this ds] show ?case
    using assms(1) d Cons.prems(1) by simp
qed

lemma readout_example:
  "produce_tagger (example_sim 100) []
     (7, example_tagger [chan_hit 1 0, chan_hit 2 50, chan_hit 3 300])
   = [\<lparr>mac5 = 7, entry = 0, readout_ttrig = 0, chanTrig = 1, trigPair = (0, 0),
       readout_macPair = (7, 7), chanData = [chan_hit 1 0, chan_hit 2 50]\<rparr>]"
  by (simp add: produce_tagger_def coincidence_possible_def example_sim_def example_sim_with_def
        example_tagger_def chan_hit_def first_trigger_def readout_step_def hand_over_def Let_def)

text \<open>
  C10. A readout is appended to \<open>triggeredCRTHits\<close> only in a turn of the loop whose
  datum arrives strictly later than the trigger time plus the dead time; nothing is
  appended once the data run out. So a tagger whose data all arrive within the dead time
  of the trigger current at their turn adds no readout, and neither does a tagger with a
  single datum, nor one whose data all lie within the dead time of one another.
\<close>

theorem open_readout_never_emitted:
  "(triggeredCRTHits (readout_step sim taggers key trg st d) \<noteq> triggeredCRTHits st
      \<longrightarrow> clockTime sim (T0 d) > ttrig st + fDeadTime sim)
   \<and> (within_dead_time sim taggers key trg st ds
      \<longrightarrow> triggeredCRTHits (readout_loop sim taggers key trg st ds) = triggeredCRTHits st)
   \<and> (tagger_data trg = [d] \<longrightarrow> produce_tagger sim taggers (key, trg) = [])
   \<and> ((\<forall>a \<in> set (tagger_data trg). \<forall>b \<in> set (tagger_data trg).
          clockTime sim (T0 a) \<le> clockTime sim (T0 b) + fDeadTime sim)
      \<longrightarrow> produce_tagger sim taggers (key, trg) = [])"
proof (intro conjI impI)
  assume "triggeredCRTHits (readout_step sim taggers key trg st d) \<noteq> triggeredCRTHits st"
  then show "clockTime sim (T0 d) > ttrig st + fDeadTime sim"
    using step_emits_only_after_dead_time [of sim taggers key trg st d] by blast
next
  assume "within_dead_time sim taggers key trg st ds"
  then show "triggeredCRTHits (readout_loop sim taggers key trg st ds) = triggeredCRTHits st"
    by (rule loop_within_dead_time)
next
  assume "tagger_data trg = [d]"
  then show "produce_tagger sim taggers (key, trg) = []"
    by (simp add: produce_tagger_def first_trigger_def)
next
  assume close: "\<forall>a \<in> set (tagger_data trg). \<forall>b \<in> set (tagger_data trg).
          clockTime sim (T0 a) \<le> clockTime sim (T0 b) + fDeadTime sim"
  let ?S = "(\<lambda>d. clockTime sim (T0 d)) ` set (tagger_data trg)"
  have S: "\<forall>a \<in> ?S. \<forall>b \<in> ?S. a \<le> b + fDeadTime sim" using close by auto
  show "produce_tagger sim taggers (key, trg) = []"
  proof (cases "sort_key T0 (tagger_data trg)")
    case Nil
    then show ?thesis by (simp add: produce_tagger_def)
  next
    case (Cons d0 rest)
    have "set (sort_key T0 (tagger_data trg)) = set (tagger_data trg)" by simp
    then have mem: "set (d0 # rest) = set (tagger_data trg)" using Cons by simp
    have t0: "ttrig (first_trigger sim trg d0) \<in> ?S"
      using mem by (auto simp add: first_trigger_def)
    have r: "\<forall>d \<in> set rest. clockTime sim (T0 d) \<in> ?S" using mem by auto
    have "within_dead_time sim taggers key trg (first_trigger sim trg d0) rest"
      by (rule close_times_within_dead_time [OF S t0 r])
    then have "triggeredCRTHits (readout_loop sim taggers key trg (first_trigger sim trg d0) rest)
               = triggeredCRTHits (first_trigger sim trg d0)"
      by (rule loop_within_dead_time)
    then show ?thesis using Cons by (simp add: produce_tagger_def first_trigger_def)
  qed
qed

theorem open_readout_never_emitted_witness:
  "produce_tagger (example_sim 100) [] (7, example_tagger [chan_hit 1 0]) = []
   \<and> produce_tagger (example_sim 100) [] (7, example_tagger [chan_hit 1 0, chan_hit 2 50, chan_hit 3 150]) = []
   \<and> coincidence_possible (example_sim 100) (example_tagger [chan_hit 1 0])"
proof -
  have a: "tagger_data (example_tagger [chan_hit 1 0]) = [chan_hit 1 0]"
    by (simp add: example_tagger_def)
  have b: "\<forall>a \<in> set (tagger_data (example_tagger [chan_hit 1 0, chan_hit 2 50, chan_hit 3 150])).
           \<forall>b \<in> set (tagger_data (example_tagger [chan_hit 1 0, chan_hit 2 50, chan_hit 3 150])).
          clockTime (example_sim 100) (T0 a) \<le> clockTime (example_sim 100) (T0 b) + fDeadTime (example_sim 100)"
    by (simp add: example_tagger_def chan_hit_def example_sim_def example_sim_with_def)
  have c: "coincidence_possible (example_sim 100) (example_tagger [chan_hit 1 0])"
    by (simp add: coincidence_possible_def example_sim_def example_sim_with_def example_tagger_def)
  show ?thesis
    using open_readout_never_emitted [of "example_sim 100" "[]" 7 "example_tagger [chan_hit 1 0]"]
          open_readout_never_emitted [of "example_sim 100" "[]" 7 "example_tagger [chan_hit 1 0, chan_hit 2 50, chan_hit 3 150]"]
          a b c by blast
qed

text \<open>
  C8 (as the code has it). Two data on different channels of one module, the second 50
  after the first, with a dead time of 200, and no MINOS pair search. No readout is
  appended. With a window of 100 both data are held in the same \<open>passingData\<close>. With a
  window of 30 the second datum falls into the dead time and is dropped, the first
  staying the trigger; only where the layer coincidence of a CERN or DC module is applied
  is the trigger handed to the second datum, and then the first is discarded.
\<close>

theorem two_hits_fifty_apart:
  assumes "tagger_type trg = CHR ''c'' \<or> tagger_type trg = CHR ''d'' \<or> tagger_type trg = CHR ''m''"
      and "tagger_type trg = CHR ''m'' \<longrightarrow> \<not> fApplyCoincidenceM sim"
      and "Channel h2 \<noteq> Channel h1"
      and "clockTime sim (T0 h2) = clockTime sim (T0 h1) + 50"
      and "fDeadTime sim = 200"
  shows "triggeredCRTHits (readout_loop sim taggers key trg (first_trigger sim trg h1) [h2]) = []
     \<and> (window_of sim trg = 100 \<longrightarrow>
          passingData (readout_loop sim taggers key trg (first_trigger sim trg h1) [h2]) = [h1, h2]
          \<and> chanTrigData (readout_loop sim taggers key trg (first_trigger sim trg h1) [h2]) = h1
          \<and> ttrig (readout_loop sim taggers key trg (first_trigger sim trg h1) [h2])
              = clockTime sim (T0 h1))
     \<and> (window_of sim trg = 30 \<and> \<not> layer_coincidence_applied sim trg \<longrightarrow>
          passingData (readout_loop sim taggers key trg (first_trigger sim trg h1) [h2]) = [h1]
          \<and> chanTrigData (readout_loop sim taggers key trg (first_trigger sim trg h1) [h2]) = h1
          \<and> ttrig (readout_loop sim taggers key trg (first_trigger sim trg h1) [h2])
              = clockTime sim (T0 h1))
     \<and> (window_of sim trg = 30 \<and> layer_coincidence_applied sim trg \<longrightarrow>
          passingData (readout_loop sim taggers key trg (first_trigger sim trg h1) [h2]) = [h2]
          \<and> chanTrigData (readout_loop sim taggers key trg (first_trigger sim trg h1) [h2]) = h2
          \<and> ttrig (readout_loop sim taggers key trg (first_trigger sim trg h1) [h2])
              = clockTime sim (T0 h2))"
proof -
  have no_search: "\<not> (tagger_type trg = CHR ''m'' \<and> fApplyCoincidenceM sim)"
    using assms(2) by simp
  have w: "window_of sim trg = (if tagger_type trg = CHR ''c'' then fLayerCoincidenceWindowC sim * (1 / 1000)
      else if tagger_type trg = CHR ''d'' then fLayerCoincidenceWindowD sim * (1 / 1000)
      else fLayerCoincidenceWindowM sim * (1 / 1000))" by (simp add: window_of_def)
  show ?thesis
    using assms no_search
    by (auto simp add: readout_step_def hand_over_def first_trigger_def Let_def w
                       layer_coincidence_applied_def split: if_splits)
qed

theorem two_hits_fifty_apart_witness:
  "passingData (readout_loop (example_sim 100) [] 7 (example_tagger [chan_hit 1 0, chan_hit 2 50])
                  (first_trigger (example_sim 100) (example_tagger [chan_hit 1 0, chan_hit 2 50]) (chan_hit 1 0))
                  [chan_hit 2 50]) = [chan_hit 1 0, chan_hit 2 50]
   \<and> passingData (readout_loop (example_sim 30) [] 7 (example_tagger [chan_hit 1 0, chan_hit 2 50])
                  (first_trigger (example_sim 30) (example_tagger [chan_hit 1 0, chan_hit 2 50]) (chan_hit 1 0))
                  [chan_hit 2 50]) = [chan_hit 1 0]"
proof -
  have t: "tagger_type (example_tagger [chan_hit 1 0, chan_hit 2 50]) = CHR ''c''
         \<or> tagger_type (example_tagger [chan_hit 1 0, chan_hit 2 50]) = CHR ''d''
         \<or> tagger_type (example_tagger [chan_hit 1 0, chan_hit 2 50]) = CHR ''m''"
    by (simp add: example_tagger_def)
  have m: "tagger_type (example_tagger [chan_hit 1 0, chan_hit 2 50]) = CHR ''m''
             \<longrightarrow> \<not> fApplyCoincidenceM (example_sim w)" for w
    by (simp add: example_tagger_def)
  have c: "Channel (chan_hit 2 50) \<noteq> Channel (chan_hit 1 0)" by (simp add: chan_hit_def)
  have k: "clockTime (example_sim w) (T0 (chan_hit 2 50)) = clockTime (example_sim w) (T0 (chan_hit 1 0)) + 50" for w
    by (simp add: example_sim_def example_sim_with_def chan_hit_def)
  have dt: "fDeadTime (example_sim w) = 200" for w by (simp add: example_sim_def example_sim_with_def)
  have w100: "window_of (example_sim 100) (example_tagger [chan_hit 1 0, chan_hit 2 50]) = 100"
    by (simp add: window_of_def example_sim_def example_sim_with_def example_tagger_def)
  have w30: "window_of (example_sim 30) (example_tagger [chan_hit 1 0, chan_hit 2 50]) = 30
            \<and> \<not> layer_coincidence_applied (example_sim 30) (example_tagger [chan_hit 1 0, chan_hit 2 50])"
    by (simp add: window_of_def example_sim_def example_sim_with_def example_tagger_def layer_coincidence_applied_def)
  show ?thesis
    using two_hits_fifty_apart [OF t m c k dt, of 100 "[]" 7] w100
          two_hits_fifty_apart [OF t m c k dt, of 30 "[]" 7] w30
    by blast
qed

text \<open>
  With a window of 30 and a dead time of 200 the two data do not become two readouts.
  A DC module without layer coincidence produces none and keeps the first datum as the
  trigger; a CERN module with layer coincidence produces none either, and discards the
  first datum when it hands the trigger to the second.
\<close>

theorem second_hit_dropped_in_dead_time:
  "produce (example_sim 30) [(7, example_tagger [chan_hit 1 0, chan_hit 2 50])] = []
   \<and> chanTrigData (readout_loop (example_sim 30) [] 7 (example_tagger [chan_hit 1 0, chan_hit 2 50])
                  (first_trigger (example_sim 30) (example_tagger [chan_hit 1 0, chan_hit 2 50]) (chan_hit 1 0))
                  [chan_hit 2 50]) = chan_hit 1 0
   \<and> ttrig (readout_loop (example_sim 30) [] 7 (example_tagger [chan_hit 1 0, chan_hit 2 50])
                  (first_trigger (example_sim 30) (example_tagger [chan_hit 1 0, chan_hit 2 50]) (chan_hit 1 0))
                  [chan_hit 2 50]) = 0
   \<and> passingData (readout_loop (example_sim 30) [] 7 (example_tagger [chan_hit 1 0, chan_hit 2 50])
                  (first_trigger (example_sim 30) (example_tagger [chan_hit 1 0, chan_hit 2 50]) (chan_hit 1 0))
                  [chan_hit 2 50]) = [chan_hit 1 0]
   \<and> produce (example_sim_with True 30) [(7, example_cern_tagger [chan_hit 1 0, chan_hit 2 50])] = []
   \<and> passingData (readout_loop (example_sim_with True 30) [] 7
                     (example_cern_tagger [chan_hit 1 0, chan_hit 2 50])
                     (first_trigger (example_sim_with True 30)
                        (example_cern_tagger [chan_hit 1 0, chan_hit 2 50]) (chan_hit 1 0))
                     [chan_hit 2 50]) = [chan_hit 2 50]
   \<and> coincidence_possible (example_sim 30) (example_tagger [chan_hit 1 0, chan_hit 2 50])
   \<and> coincidence_possible (example_sim_with True 30)
         (example_cern_tagger [chan_hit 1 0, chan_hit 2 50])"
  by (simp add: produce_def produce_tagger_def coincidence_possible_def example_sim_def
        example_sim_with_def example_tagger_def example_cern_tagger_def chan_hit_def
        first_trigger_def readout_step_def hand_over_def Let_def)

subsection \<open>Degenerate tracks and directions\<close>





lemma Mag2_Fin: "Mag2 (TVector3 (Fin x) (Fin y) (Fin z)) = Fin (x * x + y * y + z * z)"
  by (simp add: Mag2_def)

lemma Mag_Fin: "Mag (TVector3 (Fin x) (Fin y) (Fin z)) = Fin (sqrt (x * x + y * y + z * z))"
proof -
  have "\<not> x * x + y * y + z * z < 0" by (simp add: not_less)
  then show ?thesis by (simp add: Mag_def Mag2_Fin)
qed

lemma vsub_Fin:
  "vsub (TVector3 (Fin a1) (Fin a2) (Fin a3)) (TVector3 (Fin b1) (Fin b2) (Fin b3))
     = TVector3 (Fin (a1 - b1)) (Fin (a2 - b2)) (Fin (a3 - b3))"
  by (simp add: vsub_def minus_double_def)

lemma vadd_Fin:
  "vadd (TVector3 (Fin a1) (Fin a2) (Fin a3)) (TVector3 (Fin b1) (Fin b2) (Fin b3))
     = TVector3 (Fin (a1 + b1)) (Fin (a2 + b2)) (Fin (a3 + b3))"
  by (simp add: vadd_def)

lemma vscale_Fin:
  "vscale (Fin k) (TVector3 (Fin b1) (Fin b2) (Fin b3))
     = TVector3 (Fin (k * b1)) (Fin (k * b2)) (Fin (k * b3))"
  by (simp add: vscale_def)

lemma Dot_Fin:
  "Dot (TVector3 (Fin a1) (Fin a2) (Fin a3)) (TVector3 (Fin b1) (Fin b2) (Fin b3))
     = Fin (a1 * b1 + a2 * b2 + a3 * b3)"
  by (simp add: Dot_def)

lemma sqrt_square: "0 \<le> y \<Longrightarrow> sqrt (y * y) = (y::real)"
  by simp


lemma normalised_below_float_range:
  "normalised (TVector3 (Fin 0) (Fin 0) (Fin (1 / 2 ^ 150))) = TVector3 (Fin 0) (Fin 0) (Fin (1 / 2 ^ 150))"
proof -
  have "sqrt ((1 / 2 ^ 150) * (1 / 2 ^ 150)) = (1 / 2 ^ 150 :: real)"
    by (rule sqrt_square) simp
  then show ?thesis by (simp add: normalised_def Mag_Fin Let_def)
qed









text \<open>
  The bound on the fraction is needed: with a fraction of 2 the loop of
  \<open>TrackDirectionAverage\<close> runs beyond the three points of the track, and the exception
  leaves \<open>GetClosestCRTHit\<close>.
\<close>

lemma average_throws_beyond_the_points:
  "TrackDirectionAverage example_track 2 = Inl out_of_range
   \<and> GetClosestCRTHit (average_alg\<lparr>fTrackDirectionFrac := 2\<rparr>) example_track (Fin 0, Fin 0)
         [hit_at 0] 1 0 = Inl out_of_range"
proof -
  have i: "[0 ..< 6] = [0, 1, 2, 3, 4, 5]" by (simp add: upt_rec)
  have a: "TrackDirectionAverage example_track 2 = Inl out_of_range"
    by (simp add: TrackDirectionAverage_def validDirections_def example_track_def Let_def
          vector_at_def vadd_Fin i)
  show ?thesis
    by (simp add: a GetClosestCRTHit_def hit_candidate_def hit_after_window_def Let_def
         average_alg_def example_alg_def hit_at_def default_CRTHit_def
         crtTime_of_def in_t0_window_def feq_def)
qed

text \<open>
  Parallel lines take the branch \<^verbatim>\<open>D < smallNum\<close> of \<open>LineSegmentDistance\<close>: the segment
  from the origin to \<open>(1, 0, 0)\<close> and the parallel line through \<open>(0, 1, 0)\<close> are at
  distance 1.
\<close>

lemma parallel_lines_take_the_fallback:
  "LineSegmentDistance (fvec (0, 0, 0)) (fvec (1, 0, 0)) (fvec (0, 1, 0)) (fvec (1, 1, 0)) = Fin 1"
  by (simp add: LineSegmentDistance_def Let_def vsub_Fin vadd_Fin vscale_Fin Dot_Fin Mag_Fin
        smallNum_def minus_double_def)

subsection \<open>The box of a hit\<close>

lemma std_min_same: "std_min a a = a"
  by (simp add: std_min_def)

text \<open>
  C6 (where the code departs from it). \<open>CubeIntersection\<close> reports "no crossing" by the
  point \<open>(-99999, -99999, -99999)\<close>, and \<open>DistToCrtHit\<close> reads only the \<open>x\<close> of the entry
  point. The segment from \<open>(-100015, -1, -1)\<close> to \<open>(-99983, 1, 1)\<close> passes through the
  box of the hit at \<open>(-99998, 0, 0)\<close> with uncertainties \<open>(1, 10, 10)\<close>: the slab test
  finds the crossing, with the entry point \<open>(-99999, 0, 0)\<close>, and \<open>DistToCrtHit\<close> returns
  a distance above zero. One unit further along \<open>x\<close> the same crossing gives 0.
\<close>

theorem box_entry_at_sentinel:
  "in_box (box_hit (- 99998, 0, 0) (1, 10, 10))
          (point_on (- 100015, - 1, - 1) (- 99983, 1, 1) (17 / 32))
   \<and> fst (CubeIntersection (fvec (- 99999, - 10, - 10)) (fvec (- 99997, 10, 10))
             (fvec (- 100015, - 1, - 1)) (fvec (- 99983, 1, 1))) = fvec (- 99999, 0, 0)
   \<and> Fin 0 < DistToCrtHit (box_hit (- 99998, 0, 0) (1, 10, 10))
                 (fvec (- 100015, - 1, - 1)) (fvec (- 99983, 1, 1))
   \<and> in_box (box_hit (- 99997, 0, 0) (1, 10, 10))
          (point_on (- 100014, - 1, - 1) (- 99982, 1, 1) (17 / 32))
   \<and> DistToCrtHit (box_hit (- 99997, 0, 0) (1, 10, 10))
        (fvec (- 100014, - 1, - 1)) (fvec (- 99982, 1, 1)) = Fin 0"
proof (intro conjI)
  show "in_box (box_hit (- 99998, 0, 0) (1, 10, 10))
          (point_on (- 100015, - 1, - 1) (- 99983, 1, 1) (17 / 32))"
    by (simp add: in_box_def point_on_def box_hit_def)
  show "fst (CubeIntersection (fvec (- 99999, - 10, - 10)) (fvec (- 99997, 10, 10))
             (fvec (- 100015, - 1, - 1)) (fvec (- 99983, 1, 1))) = fvec (- 99999, 0, 0)"
    by (simp add: CubeIntersection_def slab_def Let_def vsub_Fin minus_double_def)
  show "Fin 0 < DistToCrtHit (box_hit (- 99998, 0, 0) (1, 10, 10))
                 (fvec (- 100015, - 1, - 1)) (fvec (- 99983, 1, 1))"
    apply (simp add: box_hit_def DistToCrtHit_def CubeIntersection_def
             slab_def Let_def vsub_Fin minus_double_def fne_def feq_def)
    apply (simp add: LineSegmentDistance_def Let_def vsub_def vadd_def vscale_def Dot_def
             Mag_def Mag2_def smallNum_def minus_double_def std_min_def)
    done
  show "in_box (box_hit (- 99997, 0, 0) (1, 10, 10))
          (point_on (- 100014, - 1, - 1) (- 99982, 1, 1) (17 / 32))"
    by (simp add: in_box_def point_on_def box_hit_def)
  show "DistToCrtHit (box_hit (- 99997, 0, 0) (1, 10, 10))
        (fvec (- 100014, - 1, - 1)) (fvec (- 99982, 1, 1)) = Fin 0"
    by (simp add: box_hit_def DistToCrtHit_def CubeIntersection_def
             slab_def Let_def vsub_Fin minus_double_def fne_def feq_def)
qed

subsection \<open>A hit without uncertainty\<close>

text \<open>
  C7 (where the code departs from it). The hit at \<open>(0, 3, 5)\<close> without uncertainties and
  the line from the origin along \<open>z\<close>: the line passes the hit at distance 3, which
  \<open>SimpleDCA\<close> returns. For \<open>DistToCrtHit\<close> the direction has no \<open>x\<close> component and the
  start has the \<open>x\<close> of the hit, so the two slab parameters of \<open>x\<close> are NaN, \<open>0 * inf\<close>;
  they are the ones \<open>CubeIntersection\<close> starts from, every comparison with them is
  false, no miss is found, the entry point has the \<open>x\<close> NaN, which differs from
  \<open>-99999\<close>, and the distance returned is 0. With the roles of \<open>x\<close> and \<open>y\<close> exchanged
  (the hit at \<open>(3, 0, 5)\<close>) the NaN parameters are those of \<open>y\<close>, which are compared but
  not kept, the miss along \<open>z\<close> is found, and both distances are 3.
\<close>

theorem slab_test_swallowed_by_NaN:
  "DistToCrtHit (box_hit (0, 3, 5) (0, 0, 0)) (fvec (0, 0, 0))
      (vadd (fvec (0, 0, 0)) (fvec (0, 0, 1))) = Fin 0
   \<and> SimpleDCA (box_hit (0, 3, 5) (0, 0, 0)) (fvec (0, 0, 0)) (fvec (0, 0, 1)) = Fin 3
   \<and> X (fst (CubeIntersection (fvec (0, 3, 5)) (fvec (0, 3, 5)) (fvec (0, 0, 0))
               (fvec (0, 0, 1)))) = NaN
   \<and> DistToCrtHit (box_hit (3, 0, 5) (0, 0, 0)) (fvec (0, 0, 0))
      (vadd (fvec (0, 0, 0)) (fvec (0, 0, 1))) = Fin 3
   \<and> SimpleDCA (box_hit (3, 0, 5) (0, 0, 0)) (fvec (0, 0, 0)) (fvec (0, 0, 1)) = Fin 3"
proof (intro conjI)
  have s: "sqrt 9 = 3" using sqrt_square [of 3] by simp
  show "DistToCrtHit (box_hit (0, 3, 5) (0, 0, 0)) (fvec (0, 0, 0))
      (vadd (fvec (0, 0, 0)) (fvec (0, 0, 1))) = Fin 0"
    by (simp add: DistToCrtHit_def box_hit_def CubeIntersection_def slab_def Let_def vsub_Fin
          vadd_Fin minus_double_def fne_def feq_def)
  show "SimpleDCA (box_hit (0, 3, 5) (0, 0, 0)) (fvec (0, 0, 0)) (fvec (0, 0, 1)) = Fin 3"
    by (simp add: SimpleDCA_def box_hit_def Let_def vadd_Fin vsub_Fin Cross_def Mag_Fin
          minus_double_def s)
  show "X (fst (CubeIntersection (fvec (0, 3, 5)) (fvec (0, 3, 5)) (fvec (0, 0, 0))
               (fvec (0, 0, 1)))) = NaN"
    by (simp add: CubeIntersection_def slab_def Let_def vsub_Fin minus_double_def)
  show "DistToCrtHit (box_hit (3, 0, 5) (0, 0, 0)) (fvec (0, 0, 0))
      (vadd (fvec (0, 0, 0)) (fvec (0, 0, 1))) = Fin 3"
    by (simp add: DistToCrtHit_def box_hit_def CubeIntersection_def slab_def Let_def vsub_Fin
          vadd_Fin minus_double_def fne_def feq_def no_crossing_def std_min_same
          LineSegmentDistance_def Dot_Fin smallNum_def vscale_Fin Mag_Fin s)
  show "SimpleDCA (box_hit (3, 0, 5) (0, 0, 0)) (fvec (0, 0, 0)) (fvec (0, 0, 1)) = Fin 3"
    by (simp add: SimpleDCA_def box_hit_def Let_def vadd_Fin vsub_Fin Cross_def Mag_Fin
          minus_double_def s)
qed

text \<open>
  Apart from that, \<open>LineSegmentDistance\<close> takes the start point for the closest point of
  the line when the product of the direction and the vector to the hit is below
  \<open>smallNum\<close>: for the hit at \<open>(11, 10, -2)\<close> and the direction \<open>(1, 2, 2) / 2^22\<close> from the
  origin the box distance is 15 and the point distance 12.
\<close>

lemma box_and_point_differ_below_threshold:
  "DistToCrtHit (box_hit (11, 10, - 2) (0, 0, 0)) (fvec (0, 0, 0))
      (vadd (fvec (0, 0, 0)) (fvec (1 / 4194304, 2 / 4194304, 2 / 4194304))) = Fin 15
   \<and> SimpleDCA (box_hit (11, 10, - 2) (0, 0, 0)) (fvec (0, 0, 0))
      (fvec (1 / 4194304, 2 / 4194304, 2 / 4194304)) = Fin 12"
proof
  have s: "sqrt 225 = 15" using sqrt_square [of 15] by simp
  show "DistToCrtHit (box_hit (11, 10, - 2) (0, 0, 0)) (fvec (0, 0, 0))
      (vadd (fvec (0, 0, 0)) (fvec (1 / 4194304, 2 / 4194304, 2 / 4194304))) = Fin 15"
    by (simp add: DistToCrtHit_def box_hit_def CubeIntersection_def slab_def Let_def vsub_Fin
          vadd_Fin minus_double_def fne_def feq_def no_crossing_def std_min_same
          LineSegmentDistance_def Dot_Fin smallNum_def vscale_Fin Mag_Fin s)
next
  have n: "sqrt (81 / 1099511627776) = 9 / 1048576"
    using sqrt_square [of "9 / 1048576"] by simp
  have d: "sqrt (9 / 17592186044416) = 3 / 4194304"
    using sqrt_square [of "3 / 4194304"] by simp
  show "SimpleDCA (box_hit (11, 10, - 2) (0, 0, 0)) (fvec (0, 0, 0))
      (fvec (1 / 4194304, 2 / 4194304, 2 / 4194304)) = Fin 12"
    by (simp add: SimpleDCA_def box_hit_def Let_def vadd_Fin vsub_Fin Cross_def Mag_Fin
          minus_double_def n d)
qed

end
